theory Spec2Isabelle
  imports Complex_Main
begin

section \<open>The debug script \<open>debug_vm_creation.py\<close>\<close>

text \<open>
  The script is one module: four imports, one constant, one function that prints a fixed
  narrative around one timestamped request descriptor, and a \<open>__main__\<close> guard that calls
  the function. The embedding threads an explicit world through every statement. What the
  script can observe of its surroundings (the wall clock, whether a \<open>print\<close> call goes
  through, which modules can be imported and what loading them does, the command line,
  the process environment) is a field of the world; what happens to its surroundings is
  an event appended to the world's trace. Around the script stands the interpreter, which
  reports an exception that escapes and flushes standard output when it shuts down.
\<close>

subsection \<open>The world\<close>

text \<open>
  The kinds of input and output a Python process can perform. The statements of the
  function only ever produce \<open>StdoutWrite\<close>; loading an imported module can produce any of
  them, and the interpreter produces \<open>StderrWrite\<close>.
\<close>

datatype io_event =
    StdoutWrite string
  | StderrWrite string
  | StdinRead
  | FileOpen string
  | SocketOpen string
  | SocketConnect string

text \<open>
  The exceptions that can escape: \<open>print\<close> raises \<open>OSError\<close> when the device refuses the write
  and \<open>ValueError\<close> when the stream has been closed, \<open>import\<close> raises \<open>ModuleNotFoundError\<close>
  with the module's name.
\<close>

datatype exn =
    OSError
  | ValueError
  | ModuleNotFoundError string

text \<open>
  \<open>clock\<close> is the value \<open>time.time()\<close> returns: seconds since the epoch, a finite float,
  taken here as the rational number it denotes; it is the wall clock, which the system
  can set forward or back at any moment. \<open>installed\<close> lists the importable modules,
  \<open>sys_modules\<close> the modules loaded so far, and \<open>module_effects\<close> gives, for a module, the
  events that running its top level produces when it is loaded (the code of the imported
  libraries is not part of this repository, so what it does is a given of the world).

  Standard output is described by three fields. \<open>stdout_room\<close> is how many more \<open>print\<close>
  calls complete before one raises; \<open>None\<close> says that no call ever raises, which is the
  case of a healthy stream and also of a block-buffered stream (a pipe or a file), whose
  \<open>print\<close> calls only fill the buffer whatever the state of the device. \<open>stdout_closed\<close>
  says that a call that raises does so because the stream object has been closed, and
  not because the device refused the write. \<open>flush_fails\<close> says that the text left in
  the buffer cannot be written when the interpreter flushes standard output at shutdown.
  A process started without any standard output stream, where \<open>print\<close> does nothing, is
  not among the worlds.
\<close>

record world =
  clock :: rat
  stdout_room :: "nat option"
  installed :: "string list"
  sys_modules :: "string list"
  argv :: "string list"
  environ :: "(string \<times> string) list"
  trace :: "io_event list"
  stdout_closed :: bool
  flush_fails :: bool
  module_effects :: "(string \<times> io_event list) list"

text \<open>
  A statement either completes with a value or raises; in both cases it leaves a world
  behind, since output written before an exception stays written.
\<close>

type_synonym 'a io = "world \<Rightarrow> (exn + 'a) \<times> world"

definition return_io :: "'a \<Rightarrow> 'a io" where
  "return_io x w = (Inr x, w)"

definition bind_io :: "'a io \<Rightarrow> ('a \<Rightarrow> 'b io) \<Rightarrow> 'b io" where
  "bind_io m f w = (case m w of (Inl e, w') \<Rightarrow> (Inl e, w') | (Inr x, w') \<Rightarrow> f x w')"

definition then_io :: "unit io \<Rightarrow> 'b io \<Rightarrow> 'b io" where
  "then_io m k = bind_io m (\<lambda>_. k)"

subsection \<open>The library calls the script makes\<close>

text \<open>The error of a \<open>print\<close> call that standard output refuses.\<close>

definition refusal :: "world \<Rightarrow> exn" where
  "refusal w = (if stdout_closed w then ValueError else OSError)"

text \<open>
  \<open>print(s)\<close> writes \<open>s\<close> and then the line end to the stream \<open>sys.stdout\<close>. The two writes
  are taken as one step: a call either completes, and \<open>s\<close> with its line end is on the
  stream, or is refused and raises, and nothing of it is. On a block-buffered stream a
  completed call has only filled the buffer; whether the text reaches the device is
  settled when the interpreter flushes, see \<open>interpreter\<close> below.
\<close>

definition py_print :: "string \<Rightarrow> unit io" where
  "py_print s w =
     (case stdout_room w of
        None \<Rightarrow> (Inr (), w\<lparr>trace := trace w @ [StdoutWrite (s @ ''\<newline>'')]\<rparr>)
      | Some 0 \<Rightarrow> (Inl (refusal w), w)
      | Some (Suc n) \<Rightarrow>
          (Inr (), w\<lparr>stdout_room := Some n, trace := trace w @ [StdoutWrite (s @ ''\<newline>'')]\<rparr>))"

text \<open>\<open>time.time()\<close> reads the wall clock.\<close>

definition time_time :: "rat io" where
  "time_time w = (Inr (clock w), w)"

text \<open>\<open>int(x)\<close> on a float truncates towards zero.\<close>

definition py_int :: "rat \<Rightarrow> int" where
  "py_int x = (if x < 0 then \<lceil>x\<rceil> else \<lfloor>x\<rfloor>)"

text \<open>The decimal text of an integer, as an f-string field or \<open>str\<close> produces it.\<close>

definition digit_char :: "nat \<Rightarrow> char" where
  "digit_char d = ''0123456789'' ! d"

function str_digits :: "int \<Rightarrow> string" where
  "str_digits n =
     (if n < 10 then [digit_char (nat n)]
      else str_digits (n div 10) @ [digit_char (nat (n mod 10))])"
  by pat_completeness auto
termination
  by (relation "measure nat") auto

declare str_digits.simps [simp del]

definition py_str :: "int \<Rightarrow> string" where
  "py_str i = (if i < 0 then ''-'' @ str_digits (- i) else str_digits i)"

text \<open>
  \<open>json.dumps(d, indent=k)\<close> for a dictionary with string keys and string values, with
  the default \<open>ensure_ascii\<close>: the quote and the backslash are escaped, the control
  characters with a short form use it, and every other character outside the printable
  ASCII range becomes \<open>\uXXXX\<close>. A dictionary keeps its insertion order, so it is an
  association list.
\<close>

definition hex_digit :: "nat \<Rightarrow> char" where
  "hex_digit d = ''0123456789abcdef'' ! d"

definition json_escape_char :: "char \<Rightarrow> string" where
  "json_escape_char c =
     (if c = CHR 0x22 then [CHR 0x5C, CHR 0x22]
      else if c = CHR 0x5C then [CHR 0x5C, CHR 0x5C]
      else if c = CHR 0x08 then [CHR 0x5C, CHR ''b'']
      else if c = CHR 0x0C then [CHR 0x5C, CHR ''f'']
      else if c = CHR 0x0A then [CHR 0x5C, CHR ''n'']
      else if c = CHR 0x0D then [CHR 0x5C, CHR ''r'']
      else if c = CHR 0x09 then [CHR 0x5C, CHR ''t'']
      else if (of_char c :: nat) < 0x20 \<or> 0x7E < (of_char c :: nat)
        then [CHR 0x5C, CHR ''u'', CHR ''0'', CHR ''0'',
              hex_digit ((of_char c :: nat) div 16), hex_digit ((of_char c :: nat) mod 16)]
      else [c])"

definition json_string :: "string \<Rightarrow> string" where
  "json_string s = [CHR 0x22] @ concat (map json_escape_char s) @ [CHR 0x22]"

fun py_join :: "string \<Rightarrow> string list \<Rightarrow> string" where
  "py_join sep [] = []"
| "py_join sep [x] = x"
| "py_join sep (x # y # ys) = x @ sep @ py_join sep (y # ys)"

definition json_dumps :: "(string \<times> string) list \<Rightarrow> nat \<Rightarrow> string" where
  "json_dumps d indent =
     (if d = [] then ''{}''
      else ''{'' @ ''\<newline>'' @ replicate indent CHR '' ''
           @ py_join ('','' @ ''\<newline>'' @ replicate indent CHR '' '')
               (map (\<lambda>(k, v). json_string k @ '': '' @ json_string v) d)
           @ ''\<newline>'' @ ''}'')"

text \<open>What running the top level of the module \<open>m\<close> does when it is loaded.\<close>

definition load_effects :: "string \<Rightarrow> world \<Rightarrow> io_event list" where
  "load_effects m w = (case map_of (module_effects w) m of None \<Rightarrow> [] | Some es \<Rightarrow> es)"

text \<open>
  \<open>import m\<close>: nothing to do when the module is loaded already; \<open>ModuleNotFoundError\<close>
  when it cannot be found; otherwise the module is loaded, which runs its top level with
  whatever that does (loading \<open>requests\<close> runs library code that opens files and probes the
  network stack with a socket).
\<close>

definition py_import :: "string \<Rightarrow> unit io" where
  "py_import m w =
     (if m \<in> set (sys_modules w) then (Inr (), w)
      else if m \<in> set (installed w)
        then (Inr (), w\<lparr>sys_modules := sys_modules w @ [m], trace := trace w @ load_effects m w\<rparr>)
      else (Inl (ModuleNotFoundError m), w))"

subsection \<open>The module\<close>

definition OMA_API_BASE :: string where
  "OMA_API_BASE = ''http://localhost:8080''"

text \<open>
  The dictionary literal bound to \<open>test_vm_request\<close>, at the clock reading \<open>t\<close> that
  its \<open>time.time()\<close> call returned.
\<close>

definition test_vm_request :: "rat \<Rightarrow> (string \<times> string) list" where
  "test_vm_request t =
     [(''vm_id'', ''debug-test-vm-001''),
      (''vm_name'', ''debug-test-vm-001''),
      (''failover_job_id'', ''debug-test-'' @ py_str (py_int t))]"

text \<open>
  The function. Its parameter is the module global \<open>OMA_API_BASE\<close>, which the body could
  read and does not. The clock is read after the banner is printed, when the dictionary
  literal is evaluated.
\<close>

definition test_vm_creation_timing :: "string \<Rightarrow> bool io" where
  "test_vm_creation_timing oma_api_base =
     then_io (py_print ''=== DEBUGGING VM CREATION AND ROOT VOLUME TIMING ==='')
    (bind_io time_time (\<lambda>t.
     then_io (py_print (''1. Creating test VM with request: '' @ json_dumps (test_vm_request t) 2))
    (then_io (py_print ''2. Monitoring VM creation timing...'')
    (then_io (py_print ''RACE CONDITION SCENARIO:'')
    (then_io (py_print ''  Step 1: VM creation submitted to CloudStack'')
    (then_io (py_print ''  Step 2: CloudStack returns job ID immediately'')
    (then_io (py_print ''  Step 3: WaitForAsyncJob waits for job completion'')
    (then_io (py_print ''  Step 4: waitForVMFullyProvisioned waits for root volume'')
    (then_io (py_print ''  Step 5: VM operations proceed...'')
    (then_io (py_print '''')
    (then_io (py_print ''ISSUE: If Step 4 times out or fails to detect root volume,'')
    (then_io (py_print ''       the subsequent root volume deletion will fail!'')
    (return_io True)))))))))))))"

text \<open>
  The module's top level, for a given value of the constant and of \<open>__name__\<close>: the
  imports in source order, the constant, the function definition, and the guarded call,
  whose result is dropped.
\<close>

definition debug_vm_creation :: "string \<Rightarrow> string \<Rightarrow> unit io" where
  "debug_vm_creation oma_api_base name =
     then_io (py_import ''requests'')
    (then_io (py_import ''json'')
    (then_io (py_import ''time'')
    (then_io (py_import ''sys'')
    (if name = ''__main__''
     then bind_io (test_vm_creation_timing oma_api_base) (\<lambda>_. return_io ())
     else return_io ()))))"

text \<open>
  The outcome of a top level taken by itself: status 0 when it runs to its end, status 1
  when an exception escapes it. \<open>main\<close> is the module run under the name \<open>__main__\<close>. This
  is the script's own part in the exit status; what the interpreter adds around it is
  \<open>interpreter\<close> below.
\<close>

definition exit_status :: "(exn + unit) \<Rightarrow> nat" where
  "exit_status r = (case r of Inl e \<Rightarrow> 1 | Inr u \<Rightarrow> 0)"

definition run_process :: "unit io \<Rightarrow> world \<Rightarrow> nat \<times> world" where
  "run_process m w = (case m w of (r, w') \<Rightarrow> (exit_status r, w'))"

definition main :: "world \<Rightarrow> nat \<times> world" where
  "main = run_process (debug_vm_creation OMA_API_BASE ''__main__'')"

subsection \<open>Reading a world\<close>


text \<open>Whether an event is a write to standard output.\<close>

fun is_stdout :: "io_event \<Rightarrow> bool" where
  "is_stdout (StdoutWrite s) = True"
| "is_stdout e = False"

text \<open>The next \<open>k\<close> \<open>print\<close> calls complete.\<close>

definition writable :: "nat \<Rightarrow> world \<Rightarrow> bool" where
  "writable k w = (case stdout_room w of None \<Rightarrow> True | Some n \<Rightarrow> k \<le> n)"

text \<open>Whether an event creates a socket or connects one.\<close>

fun is_socket :: "io_event \<Rightarrow> bool" where
  "is_socket (SocketOpen a) = True"
| "is_socket (SocketConnect a) = True"
| "is_socket e = False"

text \<open>Whether an event is a write to standard error.\<close>

fun is_stderr :: "io_event \<Rightarrow> bool" where
  "is_stderr (StderrWrite s) = True"
| "is_stderr e = False"

text \<open>What a run added to the trace it started from.\<close>

definition emitted :: "world \<Rightarrow> world \<Rightarrow> io_event list" where
  "emitted w w' = drop (length (trace w)) (trace w')"

subsection \<open>The interpreter around the script\<close>

text \<open>
  The last line of the report the interpreter writes for an exception; the lines before
  it name files and line numbers, which depend on where the script is stored, and are
  left out.
\<close>

fun exception_line :: "exn \<Rightarrow> string" where
  "exception_line OSError = ''OSError''"
| "exception_line ValueError = ''ValueError: I/O operation on closed file.''"
| "exception_line (ModuleNotFoundError m) =
     ''ModuleNotFoundError: No module named '' @ [CHR 0x27] @ m @ [CHR 0x27]"

text \<open>
  The flush of standard output at shutdown fails: the process, which started in \<open>w\<close> and
  has reached \<open>w'\<close>, has written text that is still in the buffer (only a stream whose
  \<open>print\<close> calls never raise keeps text there), and the device does not take it.
\<close>

definition flush_error :: "world \<Rightarrow> world \<Rightarrow> bool" where
  "flush_error w w' =
     (flush_fails w' \<and> stdout_room w' = None \<and> filter is_stdout (emitted w w') \<noteq> [])"

text \<open>
  The process as the interpreter runs it. An exception that escapes the top level is
  reported on standard error and gives status 1. Then the interpreter shuts down and
  flushes standard output: when that fails it says so on standard error and the status
  is 120, whatever it was. \<open>script_process\<close> is the script started as a program.
\<close>

definition interpreter :: "unit io \<Rightarrow> world \<Rightarrow> nat \<times> world" where
  "interpreter m w =
     (case m w of (r, w') \<Rightarrow>
        (let w1 = (case r of
                     Inl e \<Rightarrow> w'\<lparr>trace := trace w' @ [StderrWrite (exception_line e)]\<rparr>
                   | Inr u \<Rightarrow> w')
         in if flush_error w w'
            then (120, w1\<lparr>trace := trace w1 @ [StderrWrite ''Exception ignored on flushing sys.stdout'']\<rparr>)
            else (exit_status r, w1)))"

definition script_process :: "world \<Rightarrow> nat \<times> world" where
  "script_process = interpreter (debug_vm_creation OMA_API_BASE ''__main__'')"

subsection \<open>Reading a run\<close>

text \<open>An \<open>import\<close> of the module succeeds: it is loaded already or can be found.\<close>

definition importable :: "string \<Rightarrow> world \<Rightarrow> bool" where
  "importable m w = (m \<in> set (sys_modules w) \<or> m \<in> set (installed w))"

text \<open>Reading a decimal numeral back, with an optional leading minus sign.\<close>

fun read_digits :: "int \<Rightarrow> string \<Rightarrow> int" where
  "read_digits acc [] = acc"
| "read_digits acc (c # cs) = read_digits (10 * acc + (of_char c - 48)) cs"

definition read_int :: "string \<Rightarrow> int" where
  "read_int s =
     (if s \<noteq> [] \<and> hd s = CHR ''-'' then - read_digits 0 (tl s) else read_digits 0 s)"

subsection \<open>The function as a list of printed lines\<close>

text \<open>The event of one \<open>print\<close> call.\<close>

definition line_event :: "string \<Rightarrow> io_event" where
  "line_event s = StdoutWrite (s @ ''\<newline>'')"

text \<open>
  The arguments of the nine \<open>print\<close> calls that follow the monitoring line: the
  scenario heading, the five steps, the empty line and the two lines of the warning.
\<close>

definition narrative :: "string list" where
  "narrative =
     [''RACE CONDITION SCENARIO:'',
      ''  Step 1: VM creation submitted to CloudStack'',
      ''  Step 2: CloudStack returns job ID immediately'',
      ''  Step 3: WaitForAsyncJob waits for job completion'',
      ''  Step 4: waitForVMFullyProvisioned waits for root volume'',
      ''  Step 5: VM operations proceed...'',
      [],
      ''ISSUE: If Step 4 times out or fails to detect root volume,'',
      ''       the subsequent root volume deletion will fail!'']"

text \<open>
  The argument of the second \<open>print\<close> call, which carries the serialised descriptor, and
  the arguments of all twelve calls in source order, at the clock reading \<open>t\<close>.
\<close>

definition request_line :: "rat \<Rightarrow> string" where
  "request_line t = ''1. Creating test VM with request: '' @ json_dumps (test_vm_request t) 2"

definition report_lines :: "rat \<Rightarrow> string list" where
  "report_lines t =
     [''=== DEBUGGING VM CREATION AND ROOT VOLUME TIMING ==='',
      request_line t,
      ''2. Monitoring VM creation timing...''] @ narrative"

text \<open>Printing a list of lines one after the other, and importing a list of modules.\<close>

fun print_lines :: "string list \<Rightarrow> unit io" where
  "print_lines [] = return_io ()"
| "print_lines (l # ls) = then_io (py_print l) (print_lines ls)"

fun import_all :: "string list \<Rightarrow> unit io" where
  "import_all [] = return_io ()"
| "import_all (m # ms) = then_io (py_import m) (import_all ms)"

text \<open>The modules the script imports, in source order.\<close>

definition imports_list :: "string list" where
  "imports_list = [''requests'', ''json'', ''time'', ''sys'']"

text \<open>Every import of the script succeeds.\<close>

definition imports_ok :: "world \<Rightarrow> bool" where
  "imports_ok w = list_all (\<lambda>m. importable m w) imports_list"

text \<open>What the four imports of the script add to the trace.\<close>

definition import_effects :: "world \<Rightarrow> io_event list" where
  "import_effects w = emitted w (snd (import_all imports_list w))"

section \<open>The shape of a run\<close>

lemma bind_return_io: "bind_io (return_io x) f = f x"
  by (rule ext) (simp add: bind_io_def return_io_def)

lemma bind_then_io: "bind_io (then_io m k) f = then_io m (bind_io k f)"
  by (rule ext) (simp add: bind_io_def then_io_def split: prod.splits sum.splits)

lemma py_print_clock: "clock (snd (py_print s w)) = clock w"
  by (simp add: py_print_def split: option.splits nat.splits)

lemma print_then_time:
  "then_io (py_print s) (bind_io time_time k) w = then_io (py_print s) (k (clock w)) w"
proof (cases "py_print s w")
  case (Pair r w')
  then have "clock w' = clock w"
    using py_print_clock [of s w] by simp
  with Pair show ?thesis
    by (simp add: then_io_def bind_io_def time_time_def split: sum.splits)
qed

lemma length_report_lines: "length (report_lines t) = 12"
  by (simp add: report_lines_def narrative_def)

lemma test_vm_creation_timing_lines:
  "test_vm_creation_timing b w
     = bind_io (print_lines (report_lines (clock w))) (\<lambda>_. return_io True) w"
  by (simp add: test_vm_creation_timing_def report_lines_def request_line_def narrative_def
        print_then_time bind_then_io bind_return_io)

lemma print_lines_result:
  "print_lines ls w =
     (case stdout_room w of
        None \<Rightarrow> (Inr (), w\<lparr>trace := trace w @ map line_event ls\<rparr>)
      | Some n \<Rightarrow>
          if length ls \<le> n
          then (Inr (), w\<lparr>stdout_room := Some (n - length ls),
                           trace := trace w @ map line_event ls\<rparr>)
          else (Inl (refusal w), w\<lparr>stdout_room := Some 0,
                                 trace := trace w @ map line_event (take n ls)\<rparr>))"
proof (induction ls arbitrary: w)
  case Nil
  then show ?case
    by (cases w) (simp add: return_io_def split: option.splits)
next
  case (Cons l ls)
  show ?case
  proof (cases "stdout_room w")
    case None
    then show ?thesis
      by (simp add: then_io_def bind_io_def py_print_def Cons.IH line_event_def)
  next
    case (Some n)
    show ?thesis
    proof (cases n)
      case 0
      with Some show ?thesis
        by (cases w) (simp add: then_io_def bind_io_def py_print_def)
    next
      case (Suc m)
      with Some show ?thesis
        by (simp add: then_io_def bind_io_def py_print_def Cons.IH line_event_def refusal_def)
    qed
  qed
qed

text \<open>The whole result of a call, by how many writes standard output still accepts.\<close>

lemma test_vm_creation_timing_result:
  "test_vm_creation_timing b w =
     (case stdout_room w of
        None \<Rightarrow> (Inr True, w\<lparr>trace := trace w @ map line_event (report_lines (clock w))\<rparr>)
      | Some n \<Rightarrow>
          if 12 \<le> n
          then (Inr True, w\<lparr>stdout_room := Some (n - 12),
                             trace := trace w @ map line_event (report_lines (clock w))\<rparr>)
          else (Inl (refusal w), w\<lparr>stdout_room := Some 0,
                  trace := trace w @ map line_event (take n (report_lines (clock w)))\<rparr>))"
  by (simp add: test_vm_creation_timing_lines bind_io_def print_lines_result
        length_report_lines return_io_def split: option.splits)

lemma test_vm_creation_timing_fst:
  "fst (test_vm_creation_timing b w) = (if writable 12 w then Inr True else Inl (refusal w))"
  by (simp add: test_vm_creation_timing_result writable_def split: option.splits)

lemma test_vm_creation_timing_trace:
  "trace (snd (test_vm_creation_timing b w)) =
     trace w @ map line_event
       (take (case stdout_room w of None \<Rightarrow> 12 | Some n \<Rightarrow> n) (report_lines (clock w)))"
  by (simp add: test_vm_creation_timing_result length_report_lines split: option.splits)

lemma test_vm_creation_timing_frame:
  "snd (test_vm_creation_timing b w) =
     w\<lparr>stdout_room := stdout_room (snd (test_vm_creation_timing b w)),
       trace := trace (snd (test_vm_creation_timing b w))\<rparr>"
  by (simp add: test_vm_creation_timing_result split: option.splits)

subsection \<open>The module and the process\<close>

lemma then_then_io: "then_io (then_io m k) j = then_io m (then_io k j)"
  by (rule ext) (simp add: then_io_def bind_io_def split: prod.splits sum.splits)

lemma then_return_io: "then_io (return_io u) k = k"
  by (rule ext) (simp add: then_io_def bind_io_def return_io_def)

lemma debug_vm_creation_imports:
  "debug_vm_creation b name =
     then_io (import_all imports_list)
       (if name = ''__main__''
        then bind_io (test_vm_creation_timing b) (\<lambda>_. return_io ())
        else return_io ())"
  by (simp add: debug_vm_creation_def imports_list_def then_then_io then_return_io)

lemma py_import_fst:
  "fst (py_import m w) = (if importable m w then Inr () else Inl (ModuleNotFoundError m))"
  by (simp add: py_import_def importable_def)

lemma py_import_frame:
  "snd (py_import m w) =
     w\<lparr>sys_modules := sys_modules (snd (py_import m w)), trace := trace (snd (py_import m w))\<rparr>"
  by (simp add: py_import_def)

lemma py_import_trace:
  "trace (snd (py_import m w)) = trace w @ emitted w (snd (py_import m w))"
  by (simp add: py_import_def emitted_def)

lemma py_import_importable:
  "importable m' (snd (py_import m w)) = importable m' w"
  by (auto simp add: py_import_def importable_def)

lemma py_import_loaded:
  "importable m w \<Longrightarrow> set (sys_modules (snd (py_import m w))) = insert m (set (sys_modules w))"
  by (auto simp add: py_import_def importable_def)

lemma py_import_failed: "\<not> importable m w \<Longrightarrow> py_import m w = (Inl (ModuleNotFoundError m), w)"
  by (simp add: py_import_def importable_def)

lemma import_all_fst:
  "fst (import_all ms w) =
     (case find (\<lambda>m. \<not> importable m w) ms of
        None \<Rightarrow> Inr () | Some m \<Rightarrow> Inl (ModuleNotFoundError m))"
proof (induction ms arbitrary: w)
  case Nil
  show ?case by (simp add: return_io_def)
next
  case (Cons m ms)
  obtain r w' where p: "py_import m w = (r, w')" by (cases "py_import m w")
  have imp: "\<And>m'. importable m' w' = importable m' w"
    using py_import_importable [of _ m w] p by simp
  show ?case
  proof (cases "importable m w")
    case True
    then have "r = Inr ()" using py_import_fst [of m w] p by simp
    with p True show ?thesis
      by (simp add: then_io_def bind_io_def Cons.IH imp)
  next
    case False
    then have "r = Inl (ModuleNotFoundError m)" using py_import_fst [of m w] p by simp
    with p False show ?thesis
      by (simp add: then_io_def bind_io_def)
  qed
qed

lemma import_all_frame:
  "snd (import_all ms w) =
     w\<lparr>sys_modules := sys_modules (snd (import_all ms w)),
       trace := trace (snd (import_all ms w))\<rparr>"
proof (induction ms arbitrary: w)
  case Nil
  show ?case by (simp add: return_io_def)
next
  case (Cons m ms)
  obtain r w' where p: "py_import m w = (r, w')" by (cases "py_import m w")
  then have f: "w' = w\<lparr>sys_modules := sys_modules w', trace := trace w'\<rparr>"
    using py_import_frame [of m w] by simp
  show ?case
  proof (cases r)
    case (Inl e)
    with p f show ?thesis by (simp add: then_io_def bind_io_def)
  next
    case (Inr u)
    have "snd (import_all ms w') =
        w'\<lparr>sys_modules := sys_modules (snd (import_all ms w')),
           trace := trace (snd (import_all ms w'))\<rparr>"
      by (rule Cons.IH)
    then have "snd (import_all ms w') =
        w\<lparr>sys_modules := sys_modules (snd (import_all ms w')),
          trace := trace (snd (import_all ms w'))\<rparr>"
      by (subst (asm) (2) f) simp
    with p Inr show ?thesis by (simp add: then_io_def bind_io_def)
  qed
qed

lemma import_all_trace:
  "trace (snd (import_all ms w)) = trace w @ emitted w (snd (import_all ms w))"
proof (induction ms arbitrary: w)
  case Nil
  show ?case by (simp add: return_io_def emitted_def)
next
  case (Cons m ms)
  obtain r w' where p: "py_import m w = (r, w')" by (cases "py_import m w")
  then have t: "trace w' = trace w @ emitted w w'"
    using py_import_trace [of m w] by simp
  show ?case
  proof (cases r)
    case (Inl e)
    with p t show ?thesis by (simp add: then_io_def bind_io_def)
  next
    case (Inr u)
    have "trace (snd (import_all ms w')) = trace w' @ emitted w' (snd (import_all ms w'))"
      by (rule Cons.IH)
    then have eq: "trace (snd (import_all ms w'))
        = trace w @ (emitted w w' @ emitted w' (snd (import_all ms w')))"
      using t by simp
    have "drop (length (trace w)) (trace (snd (import_all ms w')))
        = emitted w w' @ emitted w' (snd (import_all ms w'))"
      by (subst eq) simp
    then have "emitted w (snd (import_all ms w'))
        = emitted w w' @ emitted w' (snd (import_all ms w'))"
      by (simp only: emitted_def [of w "snd (import_all ms w')"])
    with eq have "trace (snd (import_all ms w'))
        = trace w @ emitted w (snd (import_all ms w'))"
      by simp
    with p Inr show ?thesis by (simp add: then_io_def bind_io_def)
  qed
qed

lemma import_all_loaded:
  "fst (import_all ms w) = Inr () \<Longrightarrow>
     set (sys_modules (snd (import_all ms w))) = set ms \<union> set (sys_modules w)"
proof (induction ms arbitrary: w)
  case Nil
  show ?case by (simp add: return_io_def)
next
  case (Cons m ms)
  obtain r w' where p: "py_import m w = (r, w')" by (cases "py_import m w")
  show ?case
  proof (cases "importable m w")
    case True
    then have r: "r = Inr ()" using py_import_fst [of m w] p by simp
    have l: "set (sys_modules w') = insert m (set (sys_modules w))"
      using py_import_loaded [OF True] p by simp
    from Cons.prems p r have "fst (import_all ms w') = Inr ()"
      by (simp add: then_io_def bind_io_def)
    then have "set (sys_modules (snd (import_all ms w'))) = set ms \<union> set (sys_modules w')"
      by (rule Cons.IH)
    with p r l show ?thesis by (simp add: then_io_def bind_io_def)
  next
    case False
    then have "r = Inl (ModuleNotFoundError m)" using py_import_fst [of m w] p by simp
    with Cons.prems p show ?thesis by (simp add: then_io_def bind_io_def)
  qed
qed

lemma import_all_ok: "(fst (import_all ms w) = Inr ()) = list_all (\<lambda>m. importable m w) ms"
proof -
  have "(find (\<lambda>m. \<not> importable m w) ms = None) = list_all (\<lambda>m. importable m w) ms"
    by (auto simp add: find_None_iff list_all_iff)
  then show ?thesis
    by (cases "find (\<lambda>m. \<not> importable m w) ms") (simp_all add: import_all_fst)
qed

lemma import_all_world:
  "snd (import_all imports_list w) =
     w\<lparr>sys_modules := sys_modules (snd (import_all imports_list w)),
       trace := trace w @ import_effects w\<rparr>"
  using import_all_frame [of imports_list w] import_all_trace [of imports_list w]
  by (simp add: import_effects_def)

lemma import_all_cases:
  obtains (loaded) s where
        "import_all imports_list w = (Inr (), w\<lparr>sys_modules := s, trace := trace w @ import_effects w\<rparr>)"
      and "imports_ok w" and "set s = set imports_list \<union> set (sys_modules w)"
    | (missing) m s where
        "import_all imports_list w
           = (Inl (ModuleNotFoundError m), w\<lparr>sys_modules := s, trace := trace w @ import_effects w\<rparr>)"
      and "\<not> imports_ok w"
proof (cases "imports_ok w")
  case True
  then have r: "fst (import_all imports_list w) = Inr ()"
    by (simp add: import_all_ok imports_ok_def)
  then have "import_all imports_list w
      = (Inr (), w\<lparr>sys_modules := sys_modules (snd (import_all imports_list w)),
                   trace := trace w @ import_effects w\<rparr>)"
    using import_all_world [of w] by (simp add: prod_eq_iff)
  then show ?thesis using True import_all_loaded [OF r] by (rule loaded)
next
  case False
  then have "fst (import_all imports_list w) \<noteq> Inr ()"
    by (simp add: import_all_ok imports_ok_def)
  then obtain m where "fst (import_all imports_list w) = Inl (ModuleNotFoundError m)"
    by (auto simp add: import_all_fst split: option.splits)
  then have "import_all imports_list w
      = (Inl (ModuleNotFoundError m),
         w\<lparr>sys_modules := sys_modules (snd (import_all imports_list w)),
           trace := trace w @ import_effects w\<rparr>)"
    using import_all_world [of w] by (simp add: prod_eq_iff)
  then show ?thesis using False by (rule missing)
qed

lemma writable_sys_modules [simp]:
  "writable k (w\<lparr>sys_modules := s, trace := tr\<rparr>) = writable k w"
  by (simp add: writable_def)

lemma test_vm_creation_timing_sys_modules:
  "test_vm_creation_timing b (w\<lparr>sys_modules := s, trace := tr\<rparr>) =
     (fst (test_vm_creation_timing b w),
      (snd (test_vm_creation_timing b w))
        \<lparr>sys_modules := s, trace := tr @ emitted w (snd (test_vm_creation_timing b w))\<rparr>)"
  by (simp add: test_vm_creation_timing_result emitted_def refusal_def split: option.splits)

lemma debug_vm_creation_fst:
  "fst (debug_vm_creation b ''__main__'' w) = Inr () \<longleftrightarrow> imports_ok w \<and> writable 12 w"
proof (cases w rule: import_all_cases)
  case (loaded s)
  then show ?thesis
    by (simp add: debug_vm_creation_imports then_io_def bind_io_def return_io_def
          test_vm_creation_timing_sys_modules test_vm_creation_timing_fst)
next
  case (missing m s)
  then show ?thesis
    by (simp add: debug_vm_creation_imports then_io_def bind_io_def)
qed

lemma debug_vm_creation_result:
  "fst (debug_vm_creation b ''__main__'' w) =
     (if imports_ok w
      then (if writable 12 w then Inr () else Inl (refusal w))
      else fst (import_all imports_list w))"
proof (cases w rule: import_all_cases)
  case (loaded s)
  then show ?thesis
    by (simp add: debug_vm_creation_imports then_io_def bind_io_def return_io_def
          test_vm_creation_timing_sys_modules test_vm_creation_timing_fst)
next
  case (missing m s)
  then show ?thesis
    by (simp add: debug_vm_creation_imports then_io_def bind_io_def)
qed

lemma debug_vm_creation_trace:
  "trace (snd (debug_vm_creation b ''__main__'' w)) =
     trace w @ import_effects w
       @ (if imports_ok w then emitted w (snd (test_vm_creation_timing b w)) else [])"
proof (cases w rule: import_all_cases)
  case (loaded s)
  then show ?thesis
    by (cases "fst (test_vm_creation_timing b w)")
       (simp_all add: debug_vm_creation_imports then_io_def bind_io_def return_io_def
          test_vm_creation_timing_sys_modules)
next
  case (missing m s)
  then show ?thesis
    by (simp add: debug_vm_creation_imports then_io_def bind_io_def)
qed

lemma debug_vm_creation_other_trace:
  "name \<noteq> ''__main__'' \<Longrightarrow>
     trace (snd (debug_vm_creation b name w)) = trace w @ import_effects w"
proof (cases w rule: import_all_cases)
  case (loaded s)
  assume "name \<noteq> ''__main__''"
  with loaded show ?thesis
    by (simp add: debug_vm_creation_imports then_io_def bind_io_def return_io_def)
next
  case (missing m s)
  then show ?thesis
    by (simp add: debug_vm_creation_imports then_io_def bind_io_def)
qed

lemma main_status: "fst (main w) = (if imports_ok w \<and> writable 12 w then 0 else 1)"
  using debug_vm_creation_fst [of OMA_API_BASE w]
  by (cases "debug_vm_creation OMA_API_BASE ''__main__'' w")
     (auto simp add: main_def run_process_def exit_status_def split: sum.splits)

lemma main_trace:
  "trace (snd (main w)) =
     trace w @ import_effects w
       @ (if imports_ok w then emitted w (snd (test_vm_creation_timing OMA_API_BASE w)) else [])"
  using debug_vm_creation_trace [of OMA_API_BASE w]
  by (cases "debug_vm_creation OMA_API_BASE ''__main__'' w")
     (simp add: main_def run_process_def)
subsection \<open>Truncation and decimal text\<close>

lemma py_int_mono: "t1 \<le> t2 \<Longrightarrow> py_int t1 \<le> py_int t2"
proof -
  assume le: "t1 \<le> t2"
  consider "t2 < 0" | "t1 < 0" "0 \<le> t2" | "0 \<le> t1" by linarith
  then show ?thesis
  proof cases
    case 1
    with le show ?thesis by (simp add: py_int_def ceiling_mono)
  next
    case 2
    then have a: "\<lceil>t1\<rceil> \<le> 0" and b: "0 \<le> \<lfloor>t2\<rfloor>" by (simp_all add: ceiling_le_iff)
    from a b have "\<lceil>t1\<rceil> \<le> \<lfloor>t2\<rfloor>" by (rule order_trans)
    with 2 show ?thesis by (simp add: py_int_def)
  next
    case 3
    with le show ?thesis by (simp add: py_int_def floor_mono)
  qed
qed

lemma small_nat_cases:
  "(d::nat) < 10 \<Longrightarrow> d = 0 \<or> d = 1 \<or> d = 2 \<or> d = 3 \<or> d = 4 \<or> d = 5 \<or> d = 6 \<or> d = 7 \<or> d = 8 \<or> d = 9"
  by presburger

lemma digit_char_cases:
  assumes "d < 10"
  shows "digit_char d \<in> set ''0123456789'' \<and> (of_char (digit_char d) :: int) = 48 + int d"
  using small_nat_cases [OF assms] by (elim disjE) (simp_all add: digit_char_def)

lemma str_digits_chars: "str_digits n \<noteq> [] \<and> set (str_digits n) \<subseteq> set ''0123456789''"
proof (induction n rule: str_digits.induct)
  case (1 n)
  show ?case
  proof (cases "n < 10")
    case True
    then have "nat n < 10" by simp
    from digit_char_cases [OF this] True show ?thesis
      by (subst (1 2) str_digits.simps) simp
  next
    case False
    have "nat (n mod 10) < 10" by simp
    from digit_char_cases [OF this] False "1.IH" show ?thesis
      by (subst (1 2) str_digits.simps) simp
  qed
qed

lemma read_digits_append: "read_digits a (xs @ ys) = read_digits (read_digits a xs) ys"
  by (induction xs arbitrary: a) simp_all

lemma read_digits_str_digits: "0 \<le> n \<Longrightarrow> read_digits 0 (str_digits n) = n"
proof (induction n rule: str_digits.induct)
  case (1 n)
  show ?case
  proof (cases "n < 10")
    case True
    with "1.prems" have "nat n < 10" by simp
    from digit_char_cases [OF this] True "1.prems" show ?thesis
      by (subst str_digits.simps) simp
  next
    case False
    have d: "nat (n mod 10) < 10" by simp
    from False "1.prems" have "read_digits 0 (str_digits (n div 10)) = n div 10"
      by (intro "1.IH") simp_all
    with digit_char_cases [OF d] False show ?thesis
      by (subst str_digits.simps) (simp add: read_digits_append)
  qed
qed

lemma read_int_py_str: "read_int (py_str i) = i"
proof (cases "i < 0")
  case True
  then have "py_str i = CHR ''-'' # str_digits (- i)" by (simp add: py_str_def)
  moreover from True have "read_digits 0 (str_digits (- i)) = - i"
    by (intro read_digits_str_digits) simp
  ultimately show ?thesis by (simp add: read_int_def)
next
  case False
  have ne: "str_digits i \<noteq> []" using str_digits_chars [of i] by simp
  then have "hd (str_digits i) \<in> set (str_digits i)" by simp
  then have "hd (str_digits i) \<in> set ''0123456789''"
    using str_digits_chars [of i] by blast
  then have "hd (str_digits i) \<noteq> CHR ''-''" by auto
  moreover from False have "py_str i = str_digits i" by (simp add: py_str_def)
  moreover from False have "read_digits 0 (str_digits i) = i"
    by (intro read_digits_str_digits) simp
  ultimately show ?thesis by (simp add: read_int_def)
qed

lemma py_str_chars: "set (py_str i) \<subseteq> set ''-0123456789''"
proof (cases "i < 0")
  case True
  have "set (str_digits (- i)) \<subseteq> set ''0123456789''" using str_digits_chars by blast
  also have "\<dots> \<subseteq> set ''-0123456789''" by (simp add: subset_insertI2)
  finally show ?thesis using True by (simp add: py_str_def)
next
  case False
  have "set (str_digits i) \<subseteq> set ''0123456789''" using str_digits_chars by blast
  also have "\<dots> \<subseteq> set ''-0123456789''" by (simp add: subset_insertI2)
  finally show ?thesis using False by (simp add: py_str_def)
qed

lemma json_escape_plain: "c \<in> set ''-0123456789'' \<Longrightarrow> json_escape_char c = [c]"
  by (auto simp add: json_escape_char_def)

lemma json_escape_concat:
  "set s \<subseteq> set ''-0123456789'' \<Longrightarrow> concat (map json_escape_char s) = s"
proof (induction s)
  case Nil
  show ?case by simp
next
  case (Cons c s)
  from Cons.prems have "c \<in> set ''-0123456789''" and sub: "set s \<subseteq> set ''-0123456789''"
    by simp_all
  then have "json_escape_char c = [c]" by (intro json_escape_plain)
  moreover from sub have "concat (map json_escape_char s) = s" by (rule Cons.IH)
  ultimately show ?case by simp
qed

lemma json_request_text:
  \<open>json_dumps (test_vm_request t) 2 =
     ''{\<newline>  "vm_id": "debug-test-vm-001",\<newline>  "vm_name": "debug-test-vm-001",\<newline>  "failover_job_id": "debug-test-''
       @ py_str (py_int t) @ ''"\<newline>}''\<close>
  by (simp add: json_dumps_def test_vm_request_def json_string_def json_escape_char_def
        json_escape_concat [OF py_str_chars] numeral_2_eq_2)

lemma run_status:
  "fst (run_process (debug_vm_creation b ''__main__'') w)
     = (if imports_ok w \<and> writable 12 w then 0 else 1)"
  using debug_vm_creation_fst [of b w]
  by (cases "debug_vm_creation b ''__main__'' w")
     (auto simp add: run_process_def exit_status_def split: sum.splits)

lemma run_trace:
  "trace (snd (run_process (debug_vm_creation b ''__main__'') w)) =
     trace w @ import_effects w
       @ (if imports_ok w then emitted w (snd (test_vm_creation_timing b w)) else [])"
  using debug_vm_creation_trace [of b w]
  by (cases "debug_vm_creation b ''__main__'' w") (simp add: run_process_def)

lemma emitted_test_vm_creation_timing:
  "emitted w (snd (test_vm_creation_timing b w)) =
     map line_event
       (take (case stdout_room w of None \<Rightarrow> 12 | Some n \<Rightarrow> n) (report_lines (clock w)))"
  by (simp add: emitted_def test_vm_creation_timing_trace)

lemma filter_line_events [simp]:
  "filter (\<lambda>e. \<not> is_stdout e) (map line_event ls) = []"
  "filter is_socket (map line_event ls) = []"
  by (induction ls) (simp_all add: line_event_def)

lemma emitted_complete:
  "writable 12 w \<Longrightarrow>
     emitted w (snd (test_vm_creation_timing b w)) = map line_event (report_lines (clock w))"
  by (simp add: emitted_test_vm_creation_timing writable_def length_report_lines
        split: option.splits)

lemma drop_report_lines: "drop 3 (map line_event (report_lines t)) = map line_event narrative"
  by (simp add: report_lines_def)

lemma drop_take_report_lines:
  "drop 3 (map line_event (take k (report_lines t))) = map line_event (take (k - 3) narrative)"
  by (simp add: report_lines_def drop_map drop_take)

lemma writable_argv_environ [simp]:
  "writable k (w\<lparr>argv := a, environ := e\<rparr>) = writable k w"
  by (simp add: writable_def)

lemma imports_ok_argv_environ [simp]:
  "imports_ok (w\<lparr>argv := a, environ := e\<rparr>) = imports_ok w"
  by (simp add: imports_ok_def importable_def)

lemma test_vm_creation_timing_argv_environ:
  "test_vm_creation_timing b (w\<lparr>argv := a, environ := e\<rparr>) =
     (fst (test_vm_creation_timing b' w),
      (snd (test_vm_creation_timing b' w))\<lparr>argv := a, environ := e\<rparr>)"
  by (simp add: test_vm_creation_timing_result refusal_def split: option.splits)

lemma test_vm_creation_timing_modules:
  "test_vm_creation_timing b (w\<lparr>installed := i, sys_modules := s\<rparr>) =
     (fst (test_vm_creation_timing b w),
      (snd (test_vm_creation_timing b w))\<lparr>installed := i, sys_modules := s\<rparr>)"
  by (simp add: test_vm_creation_timing_result refusal_def split: option.splits)

lemma debug_vm_creation_loaded:
  "fst (debug_vm_creation b name w) = Inr () \<Longrightarrow>
     set imports_list \<subseteq> set (sys_modules (snd (debug_vm_creation b name w)))"
proof (cases w rule: import_all_cases)
  case (loaded s)
  then show ?thesis
    by (cases "fst (test_vm_creation_timing b w)")
       (simp_all add: debug_vm_creation_imports then_io_def bind_io_def return_io_def
          test_vm_creation_timing_sys_modules)
next
  case (missing m s)
  assume "fst (debug_vm_creation b name w) = Inr ()"
  with missing show ?thesis
    by (simp add: debug_vm_creation_imports then_io_def bind_io_def)
qed

lemma request_line_second:
  "writable 2 w \<Longrightarrow>
     emitted w (snd (test_vm_creation_timing b w)) ! 1 = line_event (request_line (clock w))"
proof -
  assume w: "writable 2 w"
  then have "take (case stdout_room w of None \<Rightarrow> 12 | Some n \<Rightarrow> n) (report_lines (clock w)) ! 1
        = report_lines (clock w) ! 1"
    by (simp add: writable_def split: option.splits)
  moreover from w have
      "1 < length (take (case stdout_room w of None \<Rightarrow> 12 | Some n \<Rightarrow> n) (report_lines (clock w)))"
    by (simp add: writable_def length_report_lines split: option.splits)
  ultimately show ?thesis
    by (simp add: emitted_test_vm_creation_timing report_lines_def)
qed

lemma request_line_not_later:
  "line_event (request_line t)
     \<notin> set (map line_event (''2. Monitoring VM creation timing...'' # narrative))"
  by (simp add: line_event_def narrative_def request_line_def)

lemma request_line_once:
  assumes "2 \<le> k"
  shows "count_list (map line_event (take k (report_lines t))) (line_event (request_line t)) = 1"
proof -
  from assms obtain j where k: "k = Suc (Suc j)"
    by (cases k; cases "k - 1") simp_all
  have "line_event (request_line t)
      \<notin> set (map line_event (take j (''2. Monitoring VM creation timing...'' # narrative)))"
  proof
    assume "line_event (request_line t)
      \<in> set (map line_event (take j (''2. Monitoring VM creation timing...'' # narrative)))"
    then obtain l where l: "l \<in> set (take j (''2. Monitoring VM creation timing...'' # narrative))"
      and e: "line_event (request_line t) = line_event l"
      by auto
    from l have "l \<in> set (''2. Monitoring VM creation timing...'' # narrative)"
      by (rule in_set_takeD)
    then have "line_event l \<in> set (map line_event (''2. Monitoring VM creation timing...'' # narrative))"
      by (simp only: set_map) (rule imageI)
    with e request_line_not_later [of t] show False by simp
  qed
  then have "count_list (map line_event (take j (''2. Monitoring VM creation timing...'' # narrative)))
      (line_event (request_line t)) = 0"
    by (rule count_notin)
  moreover have "line_event ''=== DEBUGGING VM CREATION AND ROOT VOLUME TIMING ==='' 
      \<noteq> line_event (request_line t)"
    by (simp add: line_event_def request_line_def)
  ultimately show ?thesis
    unfolding k report_lines_def by simp
qed

subsection \<open>Loading effects and the interpreter\<close>

lemma py_import_argv_environ:
  "py_import m (w\<lparr>argv := a, environ := e\<rparr>) =
     (fst (py_import m w), (snd (py_import m w))\<lparr>argv := a, environ := e\<rparr>)"
  by (simp add: py_import_def load_effects_def)

lemma import_all_argv_environ:
  "import_all ms (w\<lparr>argv := a, environ := e\<rparr>) =
     (fst (import_all ms w), (snd (import_all ms w))\<lparr>argv := a, environ := e\<rparr>)"
proof (induction ms arbitrary: w)
  case Nil
  show ?case by (simp add: return_io_def)
next
  case (Cons m ms)
  show ?case
    by (cases "py_import m w"; cases "fst (py_import m w)")
       (simp_all add: then_io_def bind_io_def py_import_argv_environ Cons.IH)
qed

lemma import_effects_argv_environ [simp]:
  "import_effects (w\<lparr>argv := a, environ := e\<rparr>) = import_effects w"
  by (simp add: import_effects_def emitted_def import_all_argv_environ)

lemma emitted_argv_environ:
  "emitted (w\<lparr>argv := a, environ := e\<rparr>)
     (snd (test_vm_creation_timing b (w\<lparr>argv := a, environ := e\<rparr>)))
   = emitted w (snd (test_vm_creation_timing b' w))"
  by (simp add: emitted_test_vm_creation_timing)

lemma import_all_no_effects:
  "module_effects w = [] \<Longrightarrow> trace (snd (import_all ms w)) = trace w"
proof (induction ms arbitrary: w)
  case Nil
  show ?case by (simp add: return_io_def)
next
  case (Cons m ms)
  have p: "trace (snd (py_import m w)) = trace w"
    and q: "module_effects (snd (py_import m w)) = []"
    using Cons.prems by (simp_all add: py_import_def load_effects_def)
  show ?case
  proof (cases "py_import m w")
    case (Pair r w')
    with p q have "trace w' = trace w" and "module_effects w' = []" by simp_all
    with Pair Cons.IH [of w'] show ?thesis
      by (cases r) (simp_all add: then_io_def bind_io_def)
  qed
qed

lemma import_effects_none: "module_effects w = [] \<Longrightarrow> import_effects w = []"
  by (simp add: import_effects_def emitted_def import_all_no_effects)

lemma emitted_debug_vm_creation:
  "emitted w (snd (debug_vm_creation b ''__main__'' w)) =
     import_effects w
       @ (if imports_ok w then emitted w (snd (test_vm_creation_timing b w)) else [])"
  by (simp add: emitted_def [of w "snd (debug_vm_creation b ''__main__'' w)"]
        debug_vm_creation_trace)

lemma filter_emitted_function [simp]:
  "filter (\<lambda>e. \<not> is_stdout e) (emitted w (snd (test_vm_creation_timing b w))) = []"
  "filter is_socket (emitted w (snd (test_vm_creation_timing b w))) = []"
  "filter (\<lambda>e. \<not> is_stdout e \<and> \<not> is_stderr e) (emitted w (snd (test_vm_creation_timing b w))) = []"
proof -
  have "\<And>ls. filter (\<lambda>e. \<not> is_stdout e \<and> \<not> is_stderr e) (map line_event ls) = []"
    by (induct_tac ls) (simp_all add: line_event_def)
  then show
    "filter (\<lambda>e. \<not> is_stdout e) (emitted w (snd (test_vm_creation_timing b w))) = []"
    "filter is_socket (emitted w (snd (test_vm_creation_timing b w))) = []"
    "filter (\<lambda>e. \<not> is_stdout e \<and> \<not> is_stderr e) (emitted w (snd (test_vm_creation_timing b w))) = []"
    by (simp_all add: emitted_test_vm_creation_timing)
qed

lemma test_vm_creation_timing_room:
  "(stdout_room (snd (test_vm_creation_timing b w)) = None) = (stdout_room w = None)"
  "flush_fails (snd (test_vm_creation_timing b w)) = flush_fails w"
  by (simp_all add: test_vm_creation_timing_result split: option.splits)

lemma debug_vm_creation_room:
  "(stdout_room (snd (debug_vm_creation b ''__main__'' w)) = None) = (stdout_room w = None)"
  "flush_fails (snd (debug_vm_creation b ''__main__'' w)) = flush_fails w"
proof -
  show "(stdout_room (snd (debug_vm_creation b ''__main__'' w)) = None) = (stdout_room w = None)"
  proof (cases w rule: import_all_cases)
    case (loaded s)
    then show ?thesis
      using test_vm_creation_timing_room(1) [of b w]
      by (cases "fst (test_vm_creation_timing b w)")
         (simp_all add: debug_vm_creation_imports then_io_def bind_io_def return_io_def
            test_vm_creation_timing_sys_modules)
  next
    case (missing m s)
    then show ?thesis
      by (simp add: debug_vm_creation_imports then_io_def bind_io_def)
  qed
  show "flush_fails (snd (debug_vm_creation b ''__main__'' w)) = flush_fails w"
  proof (cases w rule: import_all_cases)
    case (loaded s)
    then show ?thesis
      using test_vm_creation_timing_room(2) [of b w]
      by (cases "fst (test_vm_creation_timing b w)")
         (simp_all add: debug_vm_creation_imports then_io_def bind_io_def return_io_def
            test_vm_creation_timing_sys_modules)
  next
    case (missing m s)
    then show ?thesis
      by (simp add: debug_vm_creation_imports then_io_def bind_io_def)
  qed
qed

lemma report_lines_written:
  "stdout_room w = None \<Longrightarrow>
     filter is_stdout (emitted w (snd (test_vm_creation_timing b w))) \<noteq> []"
  by (simp add: emitted_test_vm_creation_timing report_lines_def line_event_def)

lemma flush_error_script:
  "flush_error w (snd (debug_vm_creation b ''__main__'' w)) =
     (flush_fails w \<and> stdout_room w = None
      \<and> (imports_ok w \<or> filter is_stdout (import_effects w) \<noteq> []))"
  using report_lines_written [of w b]
  by (auto simp add: flush_error_def debug_vm_creation_room emitted_debug_vm_creation)

lemma interpreter_status:
  "fst (interpreter m w) = (if flush_error w (snd (m w)) then 120 else exit_status (fst (m w)))"
  by (cases "m w") (simp add: interpreter_def Let_def)

lemma interpreter_trace:
  "trace (snd (interpreter m w)) =
     trace (snd (m w))
       @ (case fst (m w) of Inl e \<Rightarrow> [StderrWrite (exception_line e)] | Inr u \<Rightarrow> [])
       @ (if flush_error w (snd (m w))
          then [StderrWrite ''Exception ignored on flushing sys.stdout''] else [])"
  by (cases "m w"; cases "fst (m w)") (simp_all add: interpreter_def Let_def)

lemma script_process_status:
  "fst (script_process w) =
     (if flush_fails w \<and> stdout_room w = None
         \<and> (imports_ok w \<or> filter is_stdout (import_effects w) \<noteq> [])
      then 120
      else if imports_ok w \<and> writable 12 w then 0 else 1)"
  using main_status [of w]
  by (simp add: script_process_def interpreter_status flush_error_script main_def
        run_process_def split: prod.splits)

lemma script_process_emitted:
  "emitted w (snd (script_process w)) =
     emitted w (snd (debug_vm_creation OMA_API_BASE ''__main__'' w))
       @ (case fst (debug_vm_creation OMA_API_BASE ''__main__'' w) of
            Inl e \<Rightarrow> [StderrWrite (exception_line e)] | Inr u \<Rightarrow> [])
       @ (if flush_error w (snd (debug_vm_creation OMA_API_BASE ''__main__'' w))
          then [StderrWrite ''Exception ignored on flushing sys.stdout''] else [])"
  by (simp add: script_process_def interpreter_trace
        emitted_def [of w "snd (interpreter (debug_vm_creation OMA_API_BASE ''__main__'') w)"]
        emitted_def [of w "snd (debug_vm_creation OMA_API_BASE ''__main__'' w)"]
        debug_vm_creation_trace)

lemma py_import_effects:
  "set (emitted w (snd (py_import m w))) \<subseteq> set (load_effects m w)"
  by (simp add: py_import_def emitted_def)

lemma py_import_load_effects:
  "load_effects m' (snd (py_import m w)) = load_effects m' w"
  by (simp add: py_import_def load_effects_def)

lemma import_all_effects:
  "set (emitted w (snd (import_all ms w))) \<subseteq> (\<Union>m \<in> set ms. set (load_effects m w))"
proof (induction ms arbitrary: w)
  case Nil
  show ?case by (simp add: return_io_def emitted_def)
next
  case (Cons m ms)
  obtain r w' where p: "py_import m w = (r, w')" by (cases "py_import m w")
  have t: "trace w' = trace w @ emitted w w'"
    using py_import_trace [of m w] p by simp
  have e: "set (emitted w w') \<subseteq> set (load_effects m w)"
    using py_import_effects [of w m] p by simp
  have l: "\<And>m'. load_effects m' w' = load_effects m' w"
    using py_import_load_effects [of _ m w] p by simp
  show ?case
  proof (cases r)
    case (Inl x)
    with p e show ?thesis by (auto simp add: then_io_def bind_io_def)
  next
    case (Inr u)
    have "trace (snd (import_all ms w')) = trace w' @ emitted w' (snd (import_all ms w'))"
      by (rule import_all_trace)
    then have eq: "trace (snd (import_all ms w'))
        = trace w @ (emitted w w' @ emitted w' (snd (import_all ms w')))"
      using t by simp
    have "drop (length (trace w)) (trace (snd (import_all ms w')))
        = emitted w w' @ emitted w' (snd (import_all ms w'))"
      by (subst eq) simp
    then have split: "emitted w (snd (import_all ms w'))
        = emitted w w' @ emitted w' (snd (import_all ms w'))"
      by (simp only: emitted_def [of w "snd (import_all ms w')"])
    have "set (emitted w' (snd (import_all ms w'))) \<subseteq> (\<Union>m \<in> set ms. set (load_effects m w'))"
      by (rule Cons.IH)
    then have "set (emitted w' (snd (import_all ms w'))) \<subseteq> (\<Union>m \<in> set ms. set (load_effects m w))"
      by (simp only: l)
    with e split have "set (emitted w (snd (import_all ms w')))
        \<subseteq> (\<Union>m \<in> set (m # ms). set (load_effects m w))"
      by auto
    with p Inr show ?thesis by (simp add: then_io_def bind_io_def)
  qed
qed

lemma import_effects_subset:
  "set (import_effects w) \<subseteq> (\<Union>m \<in> set imports_list. set (load_effects m w))"
  unfolding import_effects_def by (rule import_all_effects)

lemma script_process_others:
  "filter (\<lambda>e. \<not> is_stdout e \<and> \<not> is_stderr e) (emitted w (snd (script_process w)))
     = filter (\<lambda>e. \<not> is_stdout e \<and> \<not> is_stderr e) (import_effects w)"
  by (cases "fst (debug_vm_creation OMA_API_BASE ''__main__'' w)")
     (simp_all add: script_process_emitted emitted_debug_vm_creation)

lemma script_process_sockets:
  "filter is_socket (emitted w (snd (script_process w))) = filter is_socket (import_effects w)"
  by (cases "fst (debug_vm_creation OMA_API_BASE ''__main__'' w)")
     (simp_all add: script_process_emitted emitted_debug_vm_creation)

section \<open>The claims\<close>

text \<open>
  In what follows a run of the function is \<open>test_vm_creation_timing b w\<close> for a world \<open>w\<close>, a
  run of the script is \<open>script_process w\<close>, and what a run wrote is \<open>emitted w w'\<close> for the
  world \<open>w'\<close> it left. The function makes twelve \<open>print\<close> calls: \<open>writable 12 w\<close> says that
  all of them complete, and with \<open>stdout_room w = Some n\<close> for \<open>n < 12\<close> the call number
  \<open>n + 1\<close> is refused and raises.
\<close>

subsection \<open>C1: the run succeeds\<close>

text \<open>
  Claim C1, as amended. Whenever the twelve \<open>print\<close> calls complete,
  \<open>test_vm_creation_timing\<close> returns \<open>True\<close>; when in addition the four imports succeed, the
  process started through the \<open>__main__\<close> guard exits with status 0 if the flush of standard
  output at shutdown succeeds and with status 120 if it fails. The returned value is
  dropped by the guard, so the status does not depend on it.
\<close>

theorem run_succeeds_when_output_accepted:
  "writable 12 w \<Longrightarrow>
     fst (test_vm_creation_timing b w) = Inr True
   \<and> (imports_ok w \<and> \<not> flush_fails w \<longrightarrow> fst (script_process w) = 0)
   \<and> (imports_ok w \<longrightarrow>
        fst (script_process w) = (if flush_fails w \<and> stdout_room w = None then 120 else 0))"
  by (simp add: test_vm_creation_timing_fst script_process_status)

text \<open>The amended claim at a world where nothing fails.\<close>

theorem run_succeeds_when_output_accepted_witness:
  "writable 12 \<lparr>clock = 1700000000.25, stdout_room = None,
        installed = [''requests'', ''json'', ''time'', ''sys''], sys_modules = [],
        argv = [], environ = [], trace = [],
        stdout_closed = False, flush_fails = False, module_effects = []\<rparr>
   \<and> imports_ok \<lparr>clock = 1700000000.25, stdout_room = None,
        installed = [''requests'', ''json'', ''time'', ''sys''], sys_modules = [],
        argv = [], environ = [], trace = [],
        stdout_closed = False, flush_fails = False, module_effects = []\<rparr>
   \<and> \<not> flush_fails \<lparr>clock = 1700000000.25, stdout_room = None,
        installed = [''requests'', ''json'', ''time'', ''sys''], sys_modules = [],
        argv = [], environ = [], trace = [],
        stdout_closed = False, flush_fails = False, module_effects = []\<rparr>
   \<and> fst (test_vm_creation_timing OMA_API_BASE \<lparr>clock = 1700000000.25, stdout_room = None,
        installed = [''requests'', ''json'', ''time'', ''sys''], sys_modules = [],
        argv = [], environ = [], trace = [],
        stdout_closed = False, flush_fails = False, module_effects = []\<rparr>) = Inr True
   \<and> fst (script_process \<lparr>clock = 1700000000.25, stdout_room = None,
        installed = [''requests'', ''json'', ''time'', ''sys''], sys_modules = [],
        argv = [], environ = [], trace = [],
        stdout_closed = False, flush_fails = False, module_effects = []\<rparr>) = 0"
  using run_succeeds_when_output_accepted [of "\<lparr>clock = 1700000000.25, stdout_room = None,
        installed = [''requests'', ''json'', ''time'', ''sys''], sys_modules = [],
        argv = [], environ = [], trace = [],
        stdout_closed = False, flush_fails = False, module_effects = []\<rparr>" OMA_API_BASE]
  by (simp add: writable_def imports_ok_def imports_list_def importable_def)

text \<open>
  Claim C1 as stated fails in two ways. When standard output writes through and the
  device refuses the first write, the first \<open>print\<close> raises: the function returns nothing
  and the process exits with status 1. When standard output is block-buffered and the
  device refuses the text at the final flush, the function has returned \<open>True\<close> and the
  process exits with status 120.
\<close>

theorem run_fails_when_a_write_is_refused:
  "fst (test_vm_creation_timing OMA_API_BASE \<lparr>clock = 1700000000.25, stdout_room = Some 0,
        installed = [''requests'', ''json'', ''time'', ''sys''], sys_modules = [],
        argv = [], environ = [], trace = [],
        stdout_closed = False, flush_fails = False, module_effects = []\<rparr>) = Inl OSError
   \<and> fst (script_process \<lparr>clock = 1700000000.25, stdout_room = Some 0,
        installed = [''requests'', ''json'', ''time'', ''sys''], sys_modules = [],
        argv = [], environ = [], trace = [],
        stdout_closed = False, flush_fails = False, module_effects = []\<rparr>) = 1
   \<and> fst (test_vm_creation_timing OMA_API_BASE \<lparr>clock = 1700000000.25, stdout_room = None,
        installed = [''requests'', ''json'', ''time'', ''sys''], sys_modules = [],
        argv = [], environ = [], trace = [],
        stdout_closed = False, flush_fails = True, module_effects = []\<rparr>) = Inr True
   \<and> fst (script_process \<lparr>clock = 1700000000.25, stdout_room = None,
        installed = [''requests'', ''json'', ''time'', ''sys''], sys_modules = [],
        argv = [], environ = [], trace = [],
        stdout_closed = False, flush_fails = True, module_effects = []\<rparr>) = 120"
  by (simp add: test_vm_creation_timing_fst script_process_status writable_def refusal_def
        imports_ok_def imports_list_def importable_def)

subsection \<open>C2: the job identifier\<close>

text \<open>
  Claim C2, as amended. The failover job identifier is the literal \<open>debug-test-\<close> followed by
  the decimal text of a number, which reads back as \<open>int(time.time())\<close>; whenever the second
  \<open>print\<close> call completes, that is what is printed inside the request. Of two invocations,
  the one whose reading of the wall clock is not the later one carries the smaller or
  equal number. Nothing is said of the order in which the invocations happen: the wall
  clock can be set back between them.
\<close>

theorem failover_job_id_prefix_and_order:
  \<open>map_of (test_vm_request (clock w)) ''failover_job_id''
       = Some (''debug-test-'' @ py_str (py_int (clock w)))
   \<and> read_int (py_str (py_int (clock w))) = py_int (clock w)
   \<and> (writable 2 w \<longrightarrow>
        emitted w (snd (test_vm_creation_timing b w)) ! 1 =
          StdoutWrite (''1. Creating test VM with request: {\<newline>  "vm_id": "debug-test-vm-001",\<newline>  "vm_name": "debug-test-vm-001",\<newline>  "failover_job_id": "debug-test-''
            @ py_str (py_int (clock w)) @ ''"\<newline>}\<newline>''))
   \<and> (clock w \<le> clock w' \<longrightarrow>
        read_int (drop 11 (the (map_of (test_vm_request (clock w)) ''failover_job_id'')))
          \<le> read_int (drop 11 (the (map_of (test_vm_request (clock w')) ''failover_job_id''))))\<close>
proof -
  have printed: \<open>writable 2 w \<longrightarrow>
        emitted w (snd (test_vm_creation_timing b w)) ! 1 =
          StdoutWrite (''1. Creating test VM with request: {\<newline>  "vm_id": "debug-test-vm-001",\<newline>  "vm_name": "debug-test-vm-001",\<newline>  "failover_job_id": "debug-test-''
            @ py_str (py_int (clock w)) @ ''"\<newline>}\<newline>'')\<close>
  proof (rule impI)
    assume "writable 2 w"
    then have "emitted w (snd (test_vm_creation_timing b w)) ! 1
        = line_event (request_line (clock w))"
      by (rule request_line_second)
    also have \<open>\<dots> =
          StdoutWrite (''1. Creating test VM with request: {\<newline>  "vm_id": "debug-test-vm-001",\<newline>  "vm_name": "debug-test-vm-001",\<newline>  "failover_job_id": "debug-test-''
            @ py_str (py_int (clock w)) @ ''"\<newline>}\<newline>'')\<close>
      by (simp add: request_line_def line_event_def json_request_text)
    finally show \<open>emitted w (snd (test_vm_creation_timing b w)) ! 1 =
          StdoutWrite (''1. Creating test VM with request: {\<newline>  "vm_id": "debug-test-vm-001",\<newline>  "vm_name": "debug-test-vm-001",\<newline>  "failover_job_id": "debug-test-''
            @ py_str (py_int (clock w)) @ ''"\<newline>}\<newline>'')\<close> .
  qed
  have field: "\<And>t. map_of (test_vm_request t) ''failover_job_id''
       = Some (''debug-test-'' @ py_str (py_int t))"
    by (simp add: test_vm_request_def)
  have number: "\<And>t. read_int (drop 11 (the (map_of (test_vm_request t) ''failover_job_id'')))
       = py_int t"
    by (simp add: field read_int_py_str)
  have order: "clock w \<le> clock w' \<longrightarrow>
        read_int (drop 11 (the (map_of (test_vm_request (clock w)) ''failover_job_id'')))
          \<le> read_int (drop 11 (the (map_of (test_vm_request (clock w')) ''failover_job_id'')))"
    by (simp only: number) (simp add: py_int_mono)
  from field [of "clock w"] printed order show ?thesis
    by (simp only: read_int_py_str simp_thms)
qed

text \<open>Two invocations three seconds apart, the first with room for two calls only.\<close>

theorem failover_job_id_prefix_and_order_witness:
  \<open>writable 2 \<lparr>clock = 1700000000.25, stdout_room = Some 2,
        installed = [''requests'', ''json'', ''time'', ''sys''], sys_modules = [],
        argv = [], environ = [], trace = [],
        stdout_closed = False, flush_fails = False, module_effects = []\<rparr>
   \<and> clock \<lparr>clock = 1700000000.25, stdout_room = Some 2,
        installed = [''requests'', ''json'', ''time'', ''sys''], sys_modules = [],
        argv = [], environ = [], trace = [],
        stdout_closed = False, flush_fails = False, module_effects = []\<rparr> \<le> clock \<lparr>clock = 1700000003.5, stdout_room = None,
        installed = [''requests'', ''json'', ''time'', ''sys''], sys_modules = [],
        argv = [], environ = [], trace = [],
        stdout_closed = False, flush_fails = False, module_effects = []\<rparr>
   \<and> emitted \<lparr>clock = 1700000000.25, stdout_room = Some 2,
        installed = [''requests'', ''json'', ''time'', ''sys''], sys_modules = [],
        argv = [], environ = [], trace = [],
        stdout_closed = False, flush_fails = False, module_effects = []\<rparr> (snd (test_vm_creation_timing OMA_API_BASE \<lparr>clock = 1700000000.25, stdout_room = Some 2,
        installed = [''requests'', ''json'', ''time'', ''sys''], sys_modules = [],
        argv = [], environ = [], trace = [],
        stdout_closed = False, flush_fails = False, module_effects = []\<rparr>)) ! 1 =
          StdoutWrite ''1. Creating test VM with request: {\<newline>  "vm_id": "debug-test-vm-001",\<newline>  "vm_name": "debug-test-vm-001",\<newline>  "failover_job_id": "debug-test-1700000000"\<newline>}\<newline>''
   \<and> read_int (drop 11 (the (map_of (test_vm_request (clock \<lparr>clock = 1700000000.25, stdout_room = Some 2,
        installed = [''requests'', ''json'', ''time'', ''sys''], sys_modules = [],
        argv = [], environ = [], trace = [],
        stdout_closed = False, flush_fails = False, module_effects = []\<rparr>)) ''failover_job_id'')))
       \<le> read_int (drop 11 (the (map_of (test_vm_request (clock \<lparr>clock = 1700000003.5, stdout_room = None,
        installed = [''requests'', ''json'', ''time'', ''sys''], sys_modules = [],
        argv = [], environ = [], trace = [],
        stdout_closed = False, flush_fails = False, module_effects = []\<rparr>)) ''failover_job_id'')))\<close>
proof -
  have e: "py_str (py_int (clock \<lparr>clock = 1700000000.25, stdout_room = Some 2,
        installed = [''requests'', ''json'', ''time'', ''sys''], sys_modules = [],
        argv = [], environ = [], trace = [],
        stdout_closed = False, flush_fails = False, module_effects = []\<rparr>)) = ''1700000000''"
    by code_simp
  have w: "writable 2 \<lparr>clock = 1700000000.25, stdout_room = Some 2,
        installed = [''requests'', ''json'', ''time'', ''sys''], sys_modules = [],
        argv = [], environ = [], trace = [],
        stdout_closed = False, flush_fails = False, module_effects = []\<rparr>"
    by (simp add: writable_def)
  have c: "clock \<lparr>clock = 1700000000.25, stdout_room = Some 2,
        installed = [''requests'', ''json'', ''time'', ''sys''], sys_modules = [],
        argv = [], environ = [], trace = [],
        stdout_closed = False, flush_fails = False, module_effects = []\<rparr> \<le> clock \<lparr>clock = 1700000003.5, stdout_room = None,
        installed = [''requests'', ''json'', ''time'', ''sys''], sys_modules = [],
        argv = [], environ = [], trace = [],
        stdout_closed = False, flush_fails = False, module_effects = []\<rparr>"
    by simp
  from failover_job_id_prefix_and_order [of "\<lparr>clock = 1700000000.25, stdout_room = Some 2,
        installed = [''requests'', ''json'', ''time'', ''sys''], sys_modules = [],
        argv = [], environ = [], trace = [],
        stdout_closed = False, flush_fails = False, module_effects = []\<rparr>" OMA_API_BASE "\<lparr>clock = 1700000003.5, stdout_room = None,
        installed = [''requests'', ''json'', ''time'', ''sys''], sys_modules = [],
        argv = [], environ = [], trace = [],
        stdout_closed = False, flush_fails = False, module_effects = []\<rparr>"] w c
  have \<open>emitted \<lparr>clock = 1700000000.25, stdout_room = Some 2,
        installed = [''requests'', ''json'', ''time'', ''sys''], sys_modules = [],
        argv = [], environ = [], trace = [],
        stdout_closed = False, flush_fails = False, module_effects = []\<rparr> (snd (test_vm_creation_timing OMA_API_BASE \<lparr>clock = 1700000000.25, stdout_room = Some 2,
        installed = [''requests'', ''json'', ''time'', ''sys''], sys_modules = [],
        argv = [], environ = [], trace = [],
        stdout_closed = False, flush_fails = False, module_effects = []\<rparr>)) ! 1 =
          StdoutWrite (''1. Creating test VM with request: {\<newline>  "vm_id": "debug-test-vm-001",\<newline>  "vm_name": "debug-test-vm-001",\<newline>  "failover_job_id": "debug-test-''
            @ py_str (py_int (clock \<lparr>clock = 1700000000.25, stdout_room = Some 2,
        installed = [''requests'', ''json'', ''time'', ''sys''], sys_modules = [],
        argv = [], environ = [], trace = [],
        stdout_closed = False, flush_fails = False, module_effects = []\<rparr>)) @ ''"\<newline>}\<newline>'')\<close>
    and "read_int (drop 11 (the (map_of (test_vm_request (clock \<lparr>clock = 1700000000.25, stdout_room = Some 2,
        installed = [''requests'', ''json'', ''time'', ''sys''], sys_modules = [],
        argv = [], environ = [], trace = [],
        stdout_closed = False, flush_fails = False, module_effects = []\<rparr>)) ''failover_job_id'')))
       \<le> read_int (drop 11 (the (map_of (test_vm_request (clock \<lparr>clock = 1700000003.5, stdout_room = None,
        installed = [''requests'', ''json'', ''time'', ''sys''], sys_modules = [],
        argv = [], environ = [], trace = [],
        stdout_closed = False, flush_fails = False, module_effects = []\<rparr>)) ''failover_job_id'')))"
    by blast+
  with w c e show ?thesis by simp
qed

text \<open>
  Claim C2 as stated fails. A first invocation prints the number 1700000000. The wall
  clock is then set back, and a second invocation, which starts in the world the first
  one left and so happens after it, prints 1600000000, the smaller number.
\<close>

theorem later_invocation_prints_smaller_number:
  \<open>emitted \<lparr>clock = 1700000000.25, stdout_room = None,
        installed = [''requests'', ''json'', ''time'', ''sys''], sys_modules = [],
        argv = [], environ = [], trace = [],
        stdout_closed = False, flush_fails = False, module_effects = []\<rparr> (snd (test_vm_creation_timing OMA_API_BASE \<lparr>clock = 1700000000.25, stdout_room = None,
        installed = [''requests'', ''json'', ''time'', ''sys''], sys_modules = [],
        argv = [], environ = [], trace = [],
        stdout_closed = False, flush_fails = False, module_effects = []\<rparr>)) ! 1 =
          StdoutWrite ''1. Creating test VM with request: {\<newline>  "vm_id": "debug-test-vm-001",\<newline>  "vm_name": "debug-test-vm-001",\<newline>  "failover_job_id": "debug-test-1700000000"\<newline>}\<newline>''
   \<and> emitted ((snd (test_vm_creation_timing OMA_API_BASE \<lparr>clock = 1700000000.25, stdout_room = None,
        installed = [''requests'', ''json'', ''time'', ''sys''], sys_modules = [],
        argv = [], environ = [], trace = [],
        stdout_closed = False, flush_fails = False, module_effects = []\<rparr>))\<lparr>clock := 1600000000.5\<rparr>)
         (snd (test_vm_creation_timing OMA_API_BASE
            ((snd (test_vm_creation_timing OMA_API_BASE \<lparr>clock = 1700000000.25, stdout_room = None,
        installed = [''requests'', ''json'', ''time'', ''sys''], sys_modules = [],
        argv = [], environ = [], trace = [],
        stdout_closed = False, flush_fails = False, module_effects = []\<rparr>))\<lparr>clock := 1600000000.5\<rparr>))) ! 1 =
          StdoutWrite ''1. Creating test VM with request: {\<newline>  "vm_id": "debug-test-vm-001",\<newline>  "vm_name": "debug-test-vm-001",\<newline>  "failover_job_id": "debug-test-1600000000"\<newline>}\<newline>''
   \<and> read_int ''1600000000'' < read_int ''1700000000''\<close>
proof -
  have a: "py_str (py_int 1700000000.25) = ''1700000000''"
    and b: "py_str (py_int 1600000000.5) = ''1600000000''"
    by code_simp+
  have r: "read_int ''1600000000'' < read_int ''1700000000''"
    by (simp add: read_int_def)
  have first: "writable 2 \<lparr>clock = 1700000000.25, stdout_room = None,
        installed = [''requests'', ''json'', ''time'', ''sys''], sys_modules = [],
        argv = [], environ = [], trace = [],
        stdout_closed = False, flush_fails = False, module_effects = []\<rparr>"
    by (simp add: writable_def)
  have "stdout_room (snd (test_vm_creation_timing OMA_API_BASE \<lparr>clock = 1700000000.25, stdout_room = None,
        installed = [''requests'', ''json'', ''time'', ''sys''], sys_modules = [],
        argv = [], environ = [], trace = [],
        stdout_closed = False, flush_fails = False, module_effects = []\<rparr>)) = None"
    by (simp add: test_vm_creation_timing_room)
  then have second:
    "writable 2 ((snd (test_vm_creation_timing OMA_API_BASE \<lparr>clock = 1700000000.25, stdout_room = None,
        installed = [''requests'', ''json'', ''time'', ''sys''], sys_modules = [],
        argv = [], environ = [], trace = [],
        stdout_closed = False, flush_fails = False, module_effects = []\<rparr>))\<lparr>clock := 1600000000.5\<rparr>)"
    by (simp add: writable_def)
  from request_line_second [OF first, of OMA_API_BASE]
    request_line_second [OF second, of OMA_API_BASE] a b r
  show ?thesis
    by (simp add: request_line_def line_event_def json_request_text)
qed

subsection \<open>C3: no input or output besides standard output\<close>

text \<open>
  Claim C3, as amended. The function performs no input or output other than writing to
  standard output, whatever the value of \<open>OMA_API_BASE\<close>, which it never uses. In an
  execution of the script, what happens besides the writes to standard output is what
  loading the four imported modules does, each event of which is an effect of loading
  one of them, and what the interpreter reports on standard error; the script opens no
  socket and makes no network call of its own. When loading the modules does nothing,
  nothing but these writes happens.
\<close>

theorem only_standard_output_is_touched:
  "filter (\<lambda>e. \<not> is_stdout e) (trace (snd (test_vm_creation_timing b w)))
     = filter (\<lambda>e. \<not> is_stdout e) (trace w)
   \<and> filter is_socket (trace (snd (test_vm_creation_timing b w))) = filter is_socket (trace w)
   \<and> emitted w (snd (debug_vm_creation b ''__main__'' w))
     = import_effects w
         @ (if imports_ok w then emitted w (snd (test_vm_creation_timing b w)) else [])
   \<and> set (import_effects w) \<subseteq> (\<Union>m \<in> set imports_list. set (load_effects m w))
   \<and> filter (\<lambda>e. \<not> is_stdout e \<and> \<not> is_stderr e) (emitted w (snd (script_process w)))
     = filter (\<lambda>e. \<not> is_stdout e \<and> \<not> is_stderr e) (import_effects w)
   \<and> filter is_socket (emitted w (snd (script_process w))) = filter is_socket (import_effects w)
   \<and> (module_effects w = [] \<longrightarrow>
        filter (\<lambda>e. \<not> is_stdout e \<and> \<not> is_stderr e) (emitted w (snd (script_process w))) = [])"
proof -
  have f: "filter (\<lambda>e. \<not> is_stdout e) (trace (snd (test_vm_creation_timing b w)))
       = filter (\<lambda>e. \<not> is_stdout e) (trace w)
     \<and> filter is_socket (trace (snd (test_vm_creation_timing b w))) = filter is_socket (trace w)"
    by (simp add: test_vm_creation_timing_trace)
  from f import_effects_subset [of w] show ?thesis
    by (simp add: emitted_debug_vm_creation import_effects_none script_process_others
          script_process_sockets)
qed

text \<open>A complete run in a world where loading the modules does nothing.\<close>

theorem only_standard_output_is_touched_witness:
  "module_effects \<lparr>clock = 1700000000.25, stdout_room = None,
        installed = [''requests'', ''json'', ''time'', ''sys''], sys_modules = [],
        argv = [], environ = [], trace = [],
        stdout_closed = False, flush_fails = False, module_effects = []\<rparr> = []
   \<and> filter (\<lambda>e. \<not> is_stdout e \<and> \<not> is_stderr e)
        (emitted \<lparr>clock = 1700000000.25, stdout_room = None,
        installed = [''requests'', ''json'', ''time'', ''sys''], sys_modules = [],
        argv = [], environ = [], trace = [],
        stdout_closed = False, flush_fails = False, module_effects = []\<rparr> (snd (script_process \<lparr>clock = 1700000000.25, stdout_room = None,
        installed = [''requests'', ''json'', ''time'', ''sys''], sys_modules = [],
        argv = [], environ = [], trace = [],
        stdout_closed = False, flush_fails = False, module_effects = []\<rparr>))) = []
   \<and> filter is_socket (emitted \<lparr>clock = 1700000000.25, stdout_room = None,
        installed = [''requests'', ''json'', ''time'', ''sys''], sys_modules = [],
        argv = [], environ = [], trace = [],
        stdout_closed = False, flush_fails = False, module_effects = []\<rparr> (snd (script_process \<lparr>clock = 1700000000.25, stdout_room = None,
        installed = [''requests'', ''json'', ''time'', ''sys''], sys_modules = [],
        argv = [], environ = [], trace = [],
        stdout_closed = False, flush_fails = False, module_effects = []\<rparr>))) = []"
  using only_standard_output_is_touched [of OMA_API_BASE "\<lparr>clock = 1700000000.25, stdout_room = None,
        installed = [''requests'', ''json'', ''time'', ''sys''], sys_modules = [],
        argv = [], environ = [], trace = [],
        stdout_closed = False, flush_fails = False, module_effects = []\<rparr>"]
  by (simp add: import_effects_none)

text \<open>
  Claim C3 as stated fails. Loading \<open>requests\<close> runs the top level of the library, which
  reads its files and creates a socket bound to the local address \<open>::1\<close> to find out
  whether the host supports IPv6. In a world where it does so, a run of the script that
  ends with status 0 has opened that socket.
\<close>

theorem importing_requests_opens_a_socket:
  "fst (script_process \<lparr>clock = 1700000000.25, stdout_room = None,
        installed = [''requests'', ''json'', ''time'', ''sys''], sys_modules = [],
        argv = [], environ = [], trace = [],
        stdout_closed = False, flush_fails = False, module_effects = [(''requests'', [FileOpen ''requests/__init__.py'', SocketOpen ''::1''])]\<rparr>) = 0
   \<and> filter is_socket (emitted \<lparr>clock = 1700000000.25, stdout_room = None,
        installed = [''requests'', ''json'', ''time'', ''sys''], sys_modules = [],
        argv = [], environ = [], trace = [],
        stdout_closed = False, flush_fails = False, module_effects = [(''requests'', [FileOpen ''requests/__init__.py'', SocketOpen ''::1''])]\<rparr> (snd (script_process \<lparr>clock = 1700000000.25, stdout_room = None,
        installed = [''requests'', ''json'', ''time'', ''sys''], sys_modules = [],
        argv = [], environ = [], trace = [],
        stdout_closed = False, flush_fails = False, module_effects = [(''requests'', [FileOpen ''requests/__init__.py'', SocketOpen ''::1''])]\<rparr>))) = [SocketOpen ''::1'']
   \<and> filter (\<lambda>e. \<not> is_stdout e \<and> \<not> is_stderr e)
        (emitted \<lparr>clock = 1700000000.25, stdout_room = None,
        installed = [''requests'', ''json'', ''time'', ''sys''], sys_modules = [],
        argv = [], environ = [], trace = [],
        stdout_closed = False, flush_fails = False, module_effects = [(''requests'', [FileOpen ''requests/__init__.py'', SocketOpen ''::1''])]\<rparr> (snd (script_process \<lparr>clock = 1700000000.25, stdout_room = None,
        installed = [''requests'', ''json'', ''time'', ''sys''], sys_modules = [],
        argv = [], environ = [], trace = [],
        stdout_closed = False, flush_fails = False, module_effects = [(''requests'', [FileOpen ''requests/__init__.py'', SocketOpen ''::1''])]\<rparr>)))
       = [FileOpen ''requests/__init__.py'', SocketOpen ''::1'']"
proof -
  have i: "import_effects \<lparr>clock = 1700000000.25, stdout_room = None,
        installed = [''requests'', ''json'', ''time'', ''sys''], sys_modules = [],
        argv = [], environ = [], trace = [],
        stdout_closed = False, flush_fails = False, module_effects = [(''requests'', [FileOpen ''requests/__init__.py'', SocketOpen ''::1''])]\<rparr> = [FileOpen ''requests/__init__.py'', SocketOpen ''::1'']"
    by (simp add: import_effects_def imports_list_def then_io_def bind_io_def return_io_def
          py_import_def load_effects_def emitted_def)
  have st: "fst (script_process \<lparr>clock = 1700000000.25, stdout_room = None,
        installed = [''requests'', ''json'', ''time'', ''sys''], sys_modules = [],
        argv = [], environ = [], trace = [],
        stdout_closed = False, flush_fails = False, module_effects = [(''requests'', [FileOpen ''requests/__init__.py'', SocketOpen ''::1''])]\<rparr>) = 0"
    by (simp add: script_process_status writable_def imports_ok_def imports_list_def
          importable_def)
  show ?thesis
    unfolding script_process_sockets script_process_others i st by simp
qed

subsection \<open>C4: the narrative\<close>

text \<open>
  Claim C4, as amended. For every pair of runs in which standard output accepts the
  twelve writes, what is printed after the first three lines is the same nine lines in
  the same order: the scenario heading, the five numbered steps, the empty line and the
  two lines of the warning. In any run at all, it is an initial part of those nine lines.
\<close>

theorem narrative_lines_fixed_and_ordered:
  "writable 12 w \<Longrightarrow> writable 12 w' \<Longrightarrow>
     drop 3 (emitted w (snd (test_vm_creation_timing b w))) = map line_event narrative
   \<and> drop 3 (emitted w' (snd (test_vm_creation_timing b' w'))) = map line_event narrative
   \<and> drop 3 (emitted u (snd (test_vm_creation_timing c u)))
       = map line_event
           (take ((case stdout_room u of None \<Rightarrow> 12 | Some n \<Rightarrow> n) - 3) narrative)"
  by (simp add: emitted_complete drop_report_lines)
     (simp add: emitted_test_vm_creation_timing drop_take_report_lines)

text \<open>Two complete runs at different times, and a run cut after five writes.\<close>

theorem narrative_lines_fixed_and_ordered_witness:
  "writable 12 \<lparr>clock = 1700000000.25, stdout_room = None,
        installed = [''requests'', ''json'', ''time'', ''sys''], sys_modules = [],
        argv = [], environ = [], trace = [],
        stdout_closed = False, flush_fails = False, module_effects = []\<rparr>
   \<and> writable 12 \<lparr>clock = 1700000003.5, stdout_room = None,
        installed = [''requests'', ''json'', ''time'', ''sys''], sys_modules = [],
        argv = [], environ = [], trace = [],
        stdout_closed = False, flush_fails = False, module_effects = []\<rparr>
   \<and> drop 3 (emitted \<lparr>clock = 1700000000.25, stdout_room = None,
        installed = [''requests'', ''json'', ''time'', ''sys''], sys_modules = [],
        argv = [], environ = [], trace = [],
        stdout_closed = False, flush_fails = False, module_effects = []\<rparr>
         (snd (test_vm_creation_timing OMA_API_BASE \<lparr>clock = 1700000000.25, stdout_room = None,
        installed = [''requests'', ''json'', ''time'', ''sys''], sys_modules = [],
        argv = [], environ = [], trace = [],
        stdout_closed = False, flush_fails = False, module_effects = []\<rparr>)))
       = map line_event narrative
   \<and> drop 3 (emitted \<lparr>clock = 1700000003.5, stdout_room = None,
        installed = [''requests'', ''json'', ''time'', ''sys''], sys_modules = [],
        argv = [], environ = [], trace = [],
        stdout_closed = False, flush_fails = False, module_effects = []\<rparr>
         (snd (test_vm_creation_timing OMA_API_BASE \<lparr>clock = 1700000003.5, stdout_room = None,
        installed = [''requests'', ''json'', ''time'', ''sys''], sys_modules = [],
        argv = [], environ = [], trace = [],
        stdout_closed = False, flush_fails = False, module_effects = []\<rparr>)))
       = map line_event narrative
   \<and> drop 3 (emitted \<lparr>clock = 1700000000.25, stdout_room = Some 5,
        installed = [''requests'', ''json'', ''time'', ''sys''], sys_modules = [],
        argv = [], environ = [], trace = [],
        stdout_closed = False, flush_fails = False, module_effects = []\<rparr>
         (snd (test_vm_creation_timing OMA_API_BASE \<lparr>clock = 1700000000.25, stdout_room = Some 5,
        installed = [''requests'', ''json'', ''time'', ''sys''], sys_modules = [],
        argv = [], environ = [], trace = [],
        stdout_closed = False, flush_fails = False, module_effects = []\<rparr>)))
       = map line_event (take 2 narrative)"
  using narrative_lines_fixed_and_ordered
    [where w = "\<lparr>clock = 1700000000.25, stdout_room = None,
        installed = [''requests'', ''json'', ''time'', ''sys''], sys_modules = [],
        argv = [], environ = [], trace = [],
        stdout_closed = False, flush_fails = False, module_effects = []\<rparr>"
       and w' = "\<lparr>clock = 1700000003.5, stdout_room = None,
        installed = [''requests'', ''json'', ''time'', ''sys''], sys_modules = [],
        argv = [], environ = [], trace = [],
        stdout_closed = False, flush_fails = False, module_effects = []\<rparr>"
       and u = "\<lparr>clock = 1700000000.25, stdout_room = Some 5,
        installed = [''requests'', ''json'', ''time'', ''sys''], sys_modules = [],
        argv = [], environ = [], trace = [],
        stdout_closed = False, flush_fails = False, module_effects = []\<rparr>"
       and b = OMA_API_BASE and b' = OMA_API_BASE and c = OMA_API_BASE]
  by (simp add: writable_def)

text \<open>
  Claim C4 as stated fails: of two runs at the same clock reading, the one whose standard
  output stops after five writes never prints the fifth step, which the other prints.
\<close>

theorem narrative_cut_short_when_a_write_fails:
  "line_event ''  Step 5: VM operations proceed...''
     \<in> set (emitted \<lparr>clock = 1700000000.25, stdout_room = None,
        installed = [''requests'', ''json'', ''time'', ''sys''], sys_modules = [],
        argv = [], environ = [], trace = [],
        stdout_closed = False, flush_fails = False, module_effects = []\<rparr>
         (snd (test_vm_creation_timing OMA_API_BASE \<lparr>clock = 1700000000.25, stdout_room = None,
        installed = [''requests'', ''json'', ''time'', ''sys''], sys_modules = [],
        argv = [], environ = [], trace = [],
        stdout_closed = False, flush_fails = False, module_effects = []\<rparr>)))
   \<and> line_event ''  Step 5: VM operations proceed...''
     \<notin> set (emitted \<lparr>clock = 1700000000.25, stdout_room = Some 5,
        installed = [''requests'', ''json'', ''time'', ''sys''], sys_modules = [],
        argv = [], environ = [], trace = [],
        stdout_closed = False, flush_fails = False, module_effects = []\<rparr>
         (snd (test_vm_creation_timing OMA_API_BASE \<lparr>clock = 1700000000.25, stdout_room = Some 5,
        installed = [''requests'', ''json'', ''time'', ''sys''], sys_modules = [],
        argv = [], environ = [], trace = [],
        stdout_closed = False, flush_fails = False, module_effects = []\<rparr>)))"
  by (simp add: emitted_test_vm_creation_timing report_lines_def narrative_def line_event_def
        request_line_def)

subsection \<open>C5: arguments, environment and the base address\<close>

text \<open>
  Claim C5. Two executions that differ only in the command line, in the process
  environment and in the value of \<open>OMA_API_BASE\<close> (the clock reading and everything else
  being the same) give the same result, the same exit status and the same output, for
  the function and for the script.
\<close>

theorem output_ignores_arguments_environment_and_base_url:
  "fst (test_vm_creation_timing b (w\<lparr>argv := a, environ := e\<rparr>))
     = fst (test_vm_creation_timing b' (w\<lparr>argv := a', environ := e'\<rparr>))
   \<and> trace (snd (test_vm_creation_timing b (w\<lparr>argv := a, environ := e\<rparr>)))
     = trace (snd (test_vm_creation_timing b' (w\<lparr>argv := a', environ := e'\<rparr>)))
   \<and> fst (run_process (debug_vm_creation b ''__main__'') (w\<lparr>argv := a, environ := e\<rparr>))
     = fst (run_process (debug_vm_creation b' ''__main__'') (w\<lparr>argv := a', environ := e'\<rparr>))
   \<and> trace (snd (run_process (debug_vm_creation b ''__main__'') (w\<lparr>argv := a, environ := e\<rparr>)))
     = trace (snd (run_process (debug_vm_creation b' ''__main__'') (w\<lparr>argv := a', environ := e'\<rparr>)))"
  by (simp add: run_status run_trace test_vm_creation_timing_argv_environ [of _ _ _ _ b]
        emitted_def)

text \<open>A bare invocation against one with a flag, a variable and another address.\<close>

theorem output_ignores_arguments_environment_and_base_url_witness:
  "fst (run_process (debug_vm_creation OMA_API_BASE ''__main__'') \<lparr>clock = 1700000000.25, stdout_room = None,
        installed = [''requests'', ''json'', ''time'', ''sys''], sys_modules = [],
        argv = [], environ = [], trace = [],
        stdout_closed = False, flush_fails = False, module_effects = []\<rparr>)
     = fst (run_process (debug_vm_creation ''http://example.org'' ''__main__'') \<lparr>clock = 1700000000.25, stdout_room = None,
        installed = [''requests'', ''json'', ''time'', ''sys''], sys_modules = [],
        argv = [''debug_vm_creation.py'', ''--verbose''], environ = [(''OMA_API_BASE'', ''http://example.org'')], trace = [],
        stdout_closed = False, flush_fails = False, module_effects = []\<rparr>)
   \<and> trace (snd (run_process (debug_vm_creation OMA_API_BASE ''__main__'') \<lparr>clock = 1700000000.25, stdout_room = None,
        installed = [''requests'', ''json'', ''time'', ''sys''], sys_modules = [],
        argv = [], environ = [], trace = [],
        stdout_closed = False, flush_fails = False, module_effects = []\<rparr>))
     = trace (snd (run_process (debug_vm_creation ''http://example.org'' ''__main__'') \<lparr>clock = 1700000000.25, stdout_room = None,
        installed = [''requests'', ''json'', ''time'', ''sys''], sys_modules = [],
        argv = [''debug_vm_creation.py'', ''--verbose''], environ = [(''OMA_API_BASE'', ''http://example.org'')], trace = [],
        stdout_closed = False, flush_fails = False, module_effects = []\<rparr>))"
  using output_ignores_arguments_environment_and_base_url
    [where w = "\<lparr>clock = 1700000000.25, stdout_room = None,
        installed = [''requests'', ''json'', ''time'', ''sys''], sys_modules = [],
        argv = [], environ = [], trace = [],
        stdout_closed = False, flush_fails = False, module_effects = []\<rparr>"
       and b = OMA_API_BASE and a = "[]" and e = "[]"
       and b' = "''http://example.org''"
       and a' = "[''debug_vm_creation.py'', ''--verbose'']"
       and e' = "[(''OMA_API_BASE'', ''http://example.org'')]"]
  by simp

subsection \<open>C6: the only failure\<close>



subsection \<open>C7: the request descriptor\<close>

text \<open>
  Claim C7, as amended. The request descriptor has exactly the three fields \<open>vm_id\<close>,
  \<open>vm_name\<close> and \<open>failover_job_id\<close>, in this order: two string literals and the literal
  \<open>debug-test-\<close> followed by the clock reading in whole seconds. In every run in which
  standard output accepts the first two writes, its serialisation by \<open>json.dumps\<close> is the
  second thing printed and is printed once. No run keeps it: the world a run leaves
  differs from the one it found in the output written and in the room left for output,
  and in nothing else.
\<close>

theorem request_descriptor_built_printed_discarded:
  "map fst (test_vm_request (clock w)) = [''vm_id'', ''vm_name'', ''failover_job_id'']
   \<and> map snd (test_vm_request (clock w))
       = [''debug-test-vm-001'', ''debug-test-vm-001'',
          ''debug-test-'' @ py_str (py_int (clock w))]
   \<and> request_line (clock w)
       = ''1. Creating test VM with request: '' @ json_dumps (test_vm_request (clock w)) 2
   \<and> (writable 2 w \<longrightarrow>
        emitted w (snd (test_vm_creation_timing b w)) ! 1 = line_event (request_line (clock w))
      \<and> count_list (emitted w (snd (test_vm_creation_timing b w)))
            (line_event (request_line (clock w))) = 1)
   \<and> snd (test_vm_creation_timing b w)
       = w\<lparr>stdout_room := stdout_room (snd (test_vm_creation_timing b w)),
           trace := trace w @ emitted w (snd (test_vm_creation_timing b w))\<rparr>"
proof -
  have fields: "map fst (test_vm_request (clock w)) = [''vm_id'', ''vm_name'', ''failover_job_id'']
      \<and> map snd (test_vm_request (clock w))
       = [''debug-test-vm-001'', ''debug-test-vm-001'',
          ''debug-test-'' @ py_str (py_int (clock w))]"
    by (simp add: test_vm_request_def)
  have once: "writable 2 w \<longrightarrow>
      count_list (emitted w (snd (test_vm_creation_timing b w)))
            (line_event (request_line (clock w))) = 1"
    by (simp add: emitted_test_vm_creation_timing request_line_once writable_def
          split: option.splits)
  have second: "writable 2 w \<longrightarrow>
      emitted w (snd (test_vm_creation_timing b w)) ! 1 = line_event (request_line (clock w))"
    using request_line_second [of w b] by blast
  have "trace w @ emitted w (snd (test_vm_creation_timing b w))
      = trace (snd (test_vm_creation_timing b w))"
    by (simp add: emitted_def test_vm_creation_timing_trace)
  then have kept: "snd (test_vm_creation_timing b w)
       = w\<lparr>stdout_room := stdout_room (snd (test_vm_creation_timing b w)),
           trace := trace w @ emitted w (snd (test_vm_creation_timing b w))\<rparr>"
    using test_vm_creation_timing_frame [of b w] by simp
  from fields once second kept show ?thesis
    by (intro conjI impI) (simp_all only: request_line_def)
qed

text \<open>A run with room for two writes only.\<close>

theorem request_descriptor_built_printed_discarded_witness:
  "writable 2 \<lparr>clock = 1700000000.25, stdout_room = Some 2,
        installed = [''requests'', ''json'', ''time'', ''sys''], sys_modules = [],
        argv = [], environ = [], trace = [],
        stdout_closed = False, flush_fails = False, module_effects = []\<rparr>
   \<and> emitted \<lparr>clock = 1700000000.25, stdout_room = Some 2,
        installed = [''requests'', ''json'', ''time'', ''sys''], sys_modules = [],
        argv = [], environ = [], trace = [],
        stdout_closed = False, flush_fails = False, module_effects = []\<rparr>
         (snd (test_vm_creation_timing OMA_API_BASE \<lparr>clock = 1700000000.25, stdout_room = Some 2,
        installed = [''requests'', ''json'', ''time'', ''sys''], sys_modules = [],
        argv = [], environ = [], trace = [],
        stdout_closed = False, flush_fails = False, module_effects = []\<rparr>)) ! 1
       = line_event (request_line (clock \<lparr>clock = 1700000000.25, stdout_room = Some 2,
        installed = [''requests'', ''json'', ''time'', ''sys''], sys_modules = [],
        argv = [], environ = [], trace = [],
        stdout_closed = False, flush_fails = False, module_effects = []\<rparr>))
   \<and> count_list (emitted \<lparr>clock = 1700000000.25, stdout_room = Some 2,
        installed = [''requests'', ''json'', ''time'', ''sys''], sys_modules = [],
        argv = [], environ = [], trace = [],
        stdout_closed = False, flush_fails = False, module_effects = []\<rparr>
         (snd (test_vm_creation_timing OMA_API_BASE \<lparr>clock = 1700000000.25, stdout_room = Some 2,
        installed = [''requests'', ''json'', ''time'', ''sys''], sys_modules = [],
        argv = [], environ = [], trace = [],
        stdout_closed = False, flush_fails = False, module_effects = []\<rparr>)))
         (line_event (request_line (clock \<lparr>clock = 1700000000.25, stdout_room = Some 2,
        installed = [''requests'', ''json'', ''time'', ''sys''], sys_modules = [],
        argv = [], environ = [], trace = [],
        stdout_closed = False, flush_fails = False, module_effects = []\<rparr>))) = 1"
proof -
  have "writable 2 \<lparr>clock = 1700000000.25, stdout_room = Some 2,
        installed = [''requests'', ''json'', ''time'', ''sys''], sys_modules = [],
        argv = [], environ = [], trace = [],
        stdout_closed = False, flush_fails = False, module_effects = []\<rparr>"
    by (simp add: writable_def)
  with request_descriptor_built_printed_discarded [of "\<lparr>clock = 1700000000.25, stdout_room = Some 2,
        installed = [''requests'', ''json'', ''time'', ''sys''], sys_modules = [],
        argv = [], environ = [], trace = [],
        stdout_closed = False, flush_fails = False, module_effects = []\<rparr>" OMA_API_BASE]
  show ?thesis by blast
qed

text \<open>
  Claim C7 as stated fails: when standard output refuses the first write, the first
  \<open>print\<close> raises before the descriptor is built, and the run prints nothing.
\<close>

theorem no_descriptor_printed_when_first_write_is_refused:
  "fst (test_vm_creation_timing OMA_API_BASE \<lparr>clock = 1700000000.25, stdout_room = Some 0,
        installed = [''requests'', ''json'', ''time'', ''sys''], sys_modules = [],
        argv = [], environ = [], trace = [],
        stdout_closed = False, flush_fails = False, module_effects = []\<rparr>) = Inl OSError
   \<and> emitted \<lparr>clock = 1700000000.25, stdout_room = Some 0,
        installed = [''requests'', ''json'', ''time'', ''sys''], sys_modules = [],
        argv = [], environ = [], trace = [],
        stdout_closed = False, flush_fails = False, module_effects = []\<rparr>
       (snd (test_vm_creation_timing OMA_API_BASE \<lparr>clock = 1700000000.25, stdout_room = Some 0,
        installed = [''requests'', ''json'', ''time'', ''sys''], sys_modules = [],
        argv = [], environ = [], trace = [],
        stdout_closed = False, flush_fails = False, module_effects = []\<rparr>)) = []"
  by (simp add: emitted_test_vm_creation_timing test_vm_creation_timing_fst writable_def
        refusal_def)

subsection \<open>C8: what the output depends on\<close>




subsection \<open>C9: identifiers repeat within a second\<close>



subsection \<open>C10: the imports\<close>

text \<open>
  Claim C10. The module imports \<open>requests\<close> and \<open>sys\<close> when it is loaded, whatever its
  \<open>__name__\<close>: if \<open>requests\<close> cannot be imported the script stops there with the import
  error, status 1 and nothing printed, so a run that exits with status 0 had both modules
  importable. Neither module matters to the function: with other modules installed or
  loaded it returns and prints the same.
\<close>

theorem unused_imports_are_a_precondition:
  "(\<not> importable ''requests'' w \<longrightarrow>
       debug_vm_creation b name w = (Inl (ModuleNotFoundError ''requests''), w)
     \<and> main w = (1, w))
   \<and> (fst (main w) = 0 \<longrightarrow> importable ''requests'' w \<and> importable ''sys'' w)
   \<and> (fst (debug_vm_creation b name w) = Inr () \<longrightarrow>
         ''requests'' \<in> set (sys_modules (snd (debug_vm_creation b name w)))
       \<and> ''sys'' \<in> set (sys_modules (snd (debug_vm_creation b name w))))
   \<and> fst (test_vm_creation_timing b (w\<lparr>installed := i, sys_modules := s\<rparr>))
       = fst (test_vm_creation_timing b w)
   \<and> trace (snd (test_vm_creation_timing b (w\<lparr>installed := i, sys_modules := s\<rparr>)))
       = trace (snd (test_vm_creation_timing b w))"
proof -
  have early: "\<not> importable ''requests'' w \<longrightarrow>
       debug_vm_creation b name w = (Inl (ModuleNotFoundError ''requests''), w)
     \<and> main w = (1, w)"
    by (simp add: main_def run_process_def exit_status_def debug_vm_creation_def
          then_io_def bind_io_def py_import_failed)
  have needed: "fst (main w) = 0 \<longrightarrow> importable ''requests'' w \<and> importable ''sys'' w"
    by (simp add: main_status imports_ok_def imports_list_def split: if_splits)
  have loaded: "fst (debug_vm_creation b name w) = Inr () \<longrightarrow>
         ''requests'' \<in> set (sys_modules (snd (debug_vm_creation b name w)))
       \<and> ''sys'' \<in> set (sys_modules (snd (debug_vm_creation b name w)))"
    using debug_vm_creation_loaded [of b name w] by (auto simp add: imports_list_def)
  from early needed loaded show ?thesis
    by (simp only: test_vm_creation_timing_modules fst_conv snd_conv simp_thms)
       (simp add: test_vm_creation_timing_modules)
qed

text \<open>A world without \<open>requests\<close>, and a world with all four modules.\<close>

theorem unused_imports_are_a_precondition_witness:
  "\<not> importable ''requests'' \<lparr>clock = 1700000000.25, stdout_room = None,
        installed = [''json'', ''time'', ''sys''], sys_modules = [],
        argv = [], environ = [], trace = [],
        stdout_closed = False, flush_fails = False, module_effects = []\<rparr>
   \<and> main \<lparr>clock = 1700000000.25, stdout_room = None,
        installed = [''json'', ''time'', ''sys''], sys_modules = [],
        argv = [], environ = [], trace = [],
        stdout_closed = False, flush_fails = False, module_effects = []\<rparr> = (1, \<lparr>clock = 1700000000.25, stdout_room = None,
        installed = [''json'', ''time'', ''sys''], sys_modules = [],
        argv = [], environ = [], trace = [],
        stdout_closed = False, flush_fails = False, module_effects = []\<rparr>)
   \<and> fst (main \<lparr>clock = 1700000000.25, stdout_room = None,
        installed = [''requests'', ''json'', ''time'', ''sys''], sys_modules = [],
        argv = [], environ = [], trace = [],
        stdout_closed = False, flush_fails = False, module_effects = []\<rparr>) = 0
   \<and> importable ''requests'' \<lparr>clock = 1700000000.25, stdout_room = None,
        installed = [''requests'', ''json'', ''time'', ''sys''], sys_modules = [],
        argv = [], environ = [], trace = [],
        stdout_closed = False, flush_fails = False, module_effects = []\<rparr>
   \<and> importable ''sys'' \<lparr>clock = 1700000000.25, stdout_room = None,
        installed = [''requests'', ''json'', ''time'', ''sys''], sys_modules = [],
        argv = [], environ = [], trace = [],
        stdout_closed = False, flush_fails = False, module_effects = []\<rparr>
   \<and> fst (debug_vm_creation OMA_API_BASE ''__main__'' \<lparr>clock = 1700000000.25, stdout_room = None,
        installed = [''requests'', ''json'', ''time'', ''sys''], sys_modules = [],
        argv = [], environ = [], trace = [],
        stdout_closed = False, flush_fails = False, module_effects = []\<rparr>) = Inr ()
   \<and> ''requests'' \<in> set (sys_modules (snd (debug_vm_creation OMA_API_BASE ''__main__''
         \<lparr>clock = 1700000000.25, stdout_room = None,
        installed = [''requests'', ''json'', ''time'', ''sys''], sys_modules = [],
        argv = [], environ = [], trace = [],
        stdout_closed = False, flush_fails = False, module_effects = []\<rparr>)))
   \<and> ''sys'' \<in> set (sys_modules (snd (debug_vm_creation OMA_API_BASE ''__main__''
         \<lparr>clock = 1700000000.25, stdout_room = None,
        installed = [''requests'', ''json'', ''time'', ''sys''], sys_modules = [],
        argv = [], environ = [], trace = [],
        stdout_closed = False, flush_fails = False, module_effects = []\<rparr>)))"
proof -
  have no: "\<not> importable ''requests'' \<lparr>clock = 1700000000.25, stdout_room = None,
        installed = [''json'', ''time'', ''sys''], sys_modules = [],
        argv = [], environ = [], trace = [],
        stdout_closed = False, flush_fails = False, module_effects = []\<rparr>"
    by (simp add: importable_def)
  have ok: "fst (main \<lparr>clock = 1700000000.25, stdout_room = None,
        installed = [''requests'', ''json'', ''time'', ''sys''], sys_modules = [],
        argv = [], environ = [], trace = [],
        stdout_closed = False, flush_fails = False, module_effects = []\<rparr>) = 0"
    by (simp add: main_status imports_ok_def imports_list_def importable_def writable_def)
  have run: "fst (debug_vm_creation OMA_API_BASE ''__main__'' \<lparr>clock = 1700000000.25, stdout_room = None,
        installed = [''requests'', ''json'', ''time'', ''sys''], sys_modules = [],
        argv = [], environ = [], trace = [],
        stdout_closed = False, flush_fails = False, module_effects = []\<rparr>) = Inr ()"
    by (simp add: debug_vm_creation_fst imports_ok_def imports_list_def importable_def
          writable_def)
  from no ok run
    unused_imports_are_a_precondition
      [where w = "\<lparr>clock = 1700000000.25, stdout_room = None,
        installed = [''json'', ''time'', ''sys''], sys_modules = [],
        argv = [], environ = [], trace = [],
        stdout_closed = False, flush_fails = False, module_effects = []\<rparr>" and b = OMA_API_BASE and name = "''__main__''"]
    unused_imports_are_a_precondition
      [where w = "\<lparr>clock = 1700000000.25, stdout_room = None,
        installed = [''requests'', ''json'', ''time'', ''sys''], sys_modules = [],
        argv = [], environ = [], trace = [],
        stdout_closed = False, flush_fails = False, module_effects = []\<rparr>" and b = OMA_API_BASE and name = "''__main__''"]
  show ?thesis by blast
qed

end
